theory Spec2Isabelle
  imports Complex_Main
begin

section \<open>Strings\<close>

text \<open>
  JavaScript strings are modelled as \<^typ>\<open>string\<close>. The four string methods the
  evaluators use are written out as recursive functions so that they evaluate on
  literals. \<open>toLowerCase\<close> and \<open>trim\<close> are modelled on ASCII: letters \<open>A\<close>-\<open>Z\<close> are
  folded, and the white space is tab, line feed, vertical tab, form feed, carriage
  return and space.
\<close>

fun startsWith :: "string \<Rightarrow> string \<Rightarrow> bool" where
  "startsWith s [] = True"
| "startsWith [] (p # ps) = False"
| "startsWith (c # cs) (p # ps) = (c = p \<and> startsWith cs ps)"

definition endsWith :: "string \<Rightarrow> string \<Rightarrow> bool" where
  "endsWith s x = startsWith (rev s) (rev x)"

fun includesStr :: "string \<Rightarrow> string \<Rightarrow> bool" where
  "includesStr [] x = (x = [])"
| "includesStr (c # cs) x = (startsWith (c # cs) x \<or> includesStr cs x)"

definition lowerChar :: "char \<Rightarrow> char" where
  "lowerChar c =
     (let n = (of_char c :: nat) in if 65 \<le> n \<and> n \<le> 90 then char_of (n + 32) else c)"

definition toLowerCase :: "string \<Rightarrow> string" where
  "toLowerCase s = map lowerChar s"

definition isSpace :: "char \<Rightarrow> bool" where
  "isSpace c = ((of_char c :: nat) \<in> {9, 10, 11, 12, 13, 32})"

definition trim :: "string \<Rightarrow> string" where
  "trim s = rev (dropWhile isSpace (rev (dropWhile isSpace s)))"

fun join :: "string \<Rightarrow> string list \<Rightarrow> string" where
  "join sep [] = []"
| "join sep [x] = x"
| "join sep (x # y # ys) = x @ sep @ join sep (y # ys)"

section \<open>Failure registry (src/lib/rules/registry.ts)\<close>

datatype FailureLayer =
  L1_Model | L1_Warnings | L2_CodeQuality | L3_StaticValidation | L4_Parse | L5_BrowserRuntime

fun layerName :: "FailureLayer \<Rightarrow> string" where
  "layerName L1_Model = ''L1/Model''"
| "layerName L1_Warnings = ''L1/Warnings''"
| "layerName L2_CodeQuality = ''L2/CodeQuality''"
| "layerName L3_StaticValidation = ''L3/StaticValidation''"
| "layerName L4_Parse = ''L4/Parse''"
| "layerName L5_BrowserRuntime = ''L5/BrowserRuntime''"

datatype FailureSeverity = Critical | Error | Warning | Info

datatype FailureCategory = Connectivity | Lint | Runtime | Parse | Model

record FailureDefinition =
  ruleId :: string
  layer :: FailureLayer
  category :: FailureCategory
  severity :: FailureSeverity
  message :: string

definition RUNTIME_CRASH :: string where "RUNTIME_CRASH = ''runtime/crash''"
definition RUNTIME_CONSOLE_ERROR :: string where "RUNTIME_CONSOLE_ERROR = ''runtime/console''"
definition RUNTIME_NETWORK_FAIL :: string where "RUNTIME_NETWORK_FAIL = ''runtime/network''"
definition RUNTIME_TIMEOUT :: string where "RUNTIME_TIMEOUT = ''runtime/timeout''"
definition RUNTIME_MANIFEST_MISMATCH :: string where
  "RUNTIME_MANIFEST_MISMATCH = ''runtime/manifest-mismatch''"
definition RUNTIME_EXTERNAL_ACCESS :: string where
  "RUNTIME_EXTERNAL_ACCESS = ''runtime/external-access''"
definition PARSE_INVALID_JSON :: string where "PARSE_INVALID_JSON = ''parse/json''"
definition PARSE_MISSING_TREE :: string where "PARSE_MISSING_TREE = ''parse/tree''"
definition PARSE_MISSING_ARTIFACTS :: string where "PARSE_MISSING_ARTIFACTS = ''parse/artifacts''"
definition CONNECTIVITY_BROKEN_LINK :: string where "CONNECTIVITY_BROKEN_LINK = ''connectivity/link''"
definition CONNECTIVITY_BROKEN_BINDING :: string where
  "CONNECTIVITY_BROKEN_BINDING = ''connectivity/binding''"
definition CONNECTIVITY_SCHEMA_MISMATCH :: string where
  "CONNECTIVITY_SCHEMA_MISMATCH = ''connectivity/schema''"
definition CONNECTIVITY_ROUTE_CONSISTENCY :: string where
  "CONNECTIVITY_ROUTE_CONSISTENCY = ''connectivity/route''"
definition LINT_ESLINT_A :: string where "LINT_ESLINT_A = ''lint/level-a''"
definition LINT_ESLINT_B :: string where "LINT_ESLINT_B = ''lint/level-b''"
definition LINT_ESLINT_C :: string where "LINT_ESLINT_C = ''lint/level-c''"
definition MODEL_NO_OUTPUT :: string where "MODEL_NO_OUTPUT = ''model/no-output''"

definition mkDef ::
  "string \<Rightarrow> FailureLayer \<Rightarrow> FailureCategory \<Rightarrow> FailureSeverity \<Rightarrow> string \<Rightarrow> FailureDefinition" where
  "mkDef r l c s m = \<lparr>ruleId = r, layer = l, category = c, severity = s, message = m\<rparr>"

text \<open>The object literal \<open>FAILURE_REGISTRY\<close>, as its list of own properties.\<close>

definition FAILURE_REGISTRY :: "(string \<times> FailureDefinition) list" where
  "FAILURE_REGISTRY =
   [(RUNTIME_CRASH, mkDef RUNTIME_CRASH L5_BrowserRuntime Runtime Critical
       ''Browser page crashed or encountered a fatal error''),
    (RUNTIME_CONSOLE_ERROR, mkDef RUNTIME_CONSOLE_ERROR L5_BrowserRuntime Runtime Error
       ''Console error detected''),
    (RUNTIME_NETWORK_FAIL, mkDef RUNTIME_NETWORK_FAIL L5_BrowserRuntime Runtime Error
       ''Critical network resource failed to load''),
    (RUNTIME_TIMEOUT, mkDef RUNTIME_TIMEOUT L5_BrowserRuntime Runtime Error
       ''Execution timed out''),
    (RUNTIME_MANIFEST_MISMATCH, mkDef RUNTIME_MANIFEST_MISMATCH L5_BrowserRuntime Runtime Error
       ''Runtime artifacts do not match sandbox manifest''),
    (RUNTIME_EXTERNAL_ACCESS, mkDef RUNTIME_EXTERNAL_ACCESS L1_Warnings Runtime Warning
       ''External resource accessed''),
    (PARSE_INVALID_JSON, mkDef PARSE_INVALID_JSON L4_Parse Parse Error
       ''File includes invalid JSON''),
    (PARSE_MISSING_TREE, mkDef PARSE_MISSING_TREE L4_Parse Parse Error
       ''Required file structure missing''),
    (PARSE_MISSING_ARTIFACTS, mkDef PARSE_MISSING_ARTIFACTS L4_Parse Parse Warning
       ''Required artifact files are empty or missing content''),
    (CONNECTIVITY_BROKEN_LINK, mkDef CONNECTIVITY_BROKEN_LINK L3_StaticValidation Connectivity Error
       ''File reference or link is broken''),
    (CONNECTIVITY_BROKEN_BINDING, mkDef CONNECTIVITY_BROKEN_BINDING L3_StaticValidation
       Connectivity Error ''HTML/JS data binding mismatch''),
    (CONNECTIVITY_SCHEMA_MISMATCH, mkDef CONNECTIVITY_SCHEMA_MISMATCH L3_StaticValidation
       Connectivity Error ''API Schema not correctly implemented in code''),
    (CONNECTIVITY_ROUTE_CONSISTENCY, mkDef CONNECTIVITY_ROUTE_CONSISTENCY L3_StaticValidation
       Connectivity Error ''Route configuration is inconsistent''),
    (LINT_ESLINT_A, mkDef LINT_ESLINT_A L2_CodeQuality Lint Error
       ''Critical code quality issue (Level A)''),
    (LINT_ESLINT_B, mkDef LINT_ESLINT_B L2_CodeQuality Lint Warning
       ''Code quality warning (Level B)''),
    (LINT_ESLINT_C, mkDef LINT_ESLINT_C L2_CodeQuality Lint Info
       ''Style suggestion (Level C)''),
    (MODEL_NO_OUTPUT, mkDef MODEL_NO_OUTPUT L1_Model Model Error
       ''Model failed to generate output'')]"

text \<open>
  \<open>FAILURE_REGISTRY\<close> is an ordinary object literal, so the property read
  \<open>FAILURE_REGISTRY[ruleId]\<close> first looks at the own properties above and then falls
  through to \<open>Object.prototype\<close>. The names below are the properties of
  \<open>Object.prototype\<close>; each of them reads as a function (or, for \<open>__proto__\<close>, as the
  prototype object itself), which is truthy and is not a failure definition.
\<close>

definition objectPrototypeKeys :: "string list" where
  "objectPrototypeKeys =
   [''constructor'', ''__defineGetter__'', ''__defineSetter__'', ''hasOwnProperty'',
    ''__lookupGetter__'', ''__lookupSetter__'', ''isPrototypeOf'', ''propertyIsEnumerable'',
    ''toString'', ''valueOf'', ''__proto__'', ''toLocaleString'']"

datatype registry_value = Def FailureDefinition | Inherited string

definition registryGet :: "string \<Rightarrow> registry_value option" where
  "registryGet rid =
     (case map_of FAILURE_REGISTRY rid of
        Some d \<Rightarrow> Some (Def d)
      | None \<Rightarrow> if rid \<in> set objectPrototypeKeys then Some (Inherited rid) else None)"

datatype fault = UnknownRuleId string | NotADefinition string

text \<open>\<open>getFailureDef\<close>: the read, then \<open>if (!def) throw\<close>.\<close>

definition getFailureDef :: "string \<Rightarrow> fault + registry_value" where
  "getFailureDef rid =
     (case registryGet rid of
        None \<Rightarrow> Inl (UnknownRuleId rid)
      | Some v \<Rightarrow> Inr v)"

section \<open>Failure annotations and score types (src/lib/types.ts)\<close>

datatype Difficulty = XS | S | M | L | XL

record RuntimeExternalAccess =
  accessType :: string
  target :: string
  resolved :: bool
  accessTimestamp :: string

text \<open>
  The \<open>evidence\<close> objects the modelled call sites attach: \<open>{missingFiles}\<close>,
  \<open>{entry, filesMounted}\<close>, \<open>{access, filesMounted}\<close>, \<open>{access}\<close>, \<open>{url, stack}\<close>
  and \<open>{url}\<close>.
\<close>

datatype FailureEvidence =
  EvMissingFiles "string list"
| EvEntry string "string list"
| EvAccessMounted RuntimeExternalAccess "string list"
| EvAccess RuntimeExternalAccess
| EvUrlStack "string option" string
| EvUrl "string option"

text \<open>
  A failure annotation is a registry definition spread into a new object
  (\<open>{ ...def, message, ...extra }\<close>), so it is the definition record extended by
  the optional fields. \<open>filePath\<close> and \<open>span\<close> are set by the lint call site only,
  which lies outside the functions modelled here.
\<close>

record FailureAnnotation = FailureDefinition +
  timestamp :: "nat option"
  evidence :: "FailureEvidence option"

definition annotate :: "FailureDefinition \<Rightarrow> string \<Rightarrow> FailureAnnotation" where
  "annotate d msg =
     \<lparr>ruleId = ruleId d, layer = layer d, category = category d, severity = severity d,
      message = msg, timestamp = None, evidence = None\<rparr>"

text \<open>
  \<open>makeFail\<close> / \<open>makeFailHelper\<close>: \<open>{ ...getFailureDef(ruleId), message: msg }\<close>.
  Spreading an inherited \<open>Object.prototype\<close> member copies no field, so the object
  would have none of the fields a \<open>FailureAnnotation\<close> has (the \<open>as\<close> cast is not
  checked); the model reports that as \<open>NotADefinition\<close>. Every call site passes a
  constant of \<open>RULE_IDS\<close>.
\<close>

definition makeFailHelper :: "string \<Rightarrow> string \<Rightarrow> fault + FailureAnnotation" where
  "makeFailHelper rid msg =
     (case getFailureDef rid of
        Inl e \<Rightarrow> Inl e
      | Inr (Def d) \<Rightarrow> Inr (annotate d msg)
      | Inr (Inherited n) \<Rightarrow> Inl (NotADefinition n))"

record ScoreBreakdown =
  completeness :: real
  structureScore :: real
  survivability :: real
  connectivity :: real
  failureAnnotations :: "FailureAnnotation list"

section \<open>Final evaluation (src/lib/eval/final-eval.ts)\<close>

text \<open>
  JavaScript numbers are modelled as exact reals. \<open>Math.round\<close> rounds to the
  nearest integer, halves towards \<open>+\<infinity>\<close>. \<open>NaN\<close> is not represented: the evaluators
  that feed \<open>evaluateFinal\<close> produce finite sub-scores.
\<close>

definition DIFFICULTY_WEIGHTS :: "Difficulty \<Rightarrow> real" where
  "DIFFICULTY_WEIGHTS d =
     (case d of XS \<Rightarrow> 0.6 | S \<Rightarrow> 0.8 | M \<Rightarrow> 1.0 | L \<Rightarrow> 1.2 | XL \<Rightarrow> 1.4)"

definition Math_round :: "real \<Rightarrow> real" where
  "Math_round x = of_int \<lfloor>x + 1 / 2\<rfloor>"

datatype ParseStatus = VALID | INVALID

text \<open>
  \<open>FailureMetadata\<close>: the fields that decide the score. The legacy lists
  (\<open>browserErrors\<close>, \<open>runtimeErrors\<close>, \<open>runtimeWarnings\<close>, lint lists) only feed the
  \<open>runtimeReport\<close> disclosure and are left out together with it.
\<close>

record FailureMetadata =
  difficulty :: "Difficulty option"
  parseStatus :: "ParseStatus option"
  md_failureAnnotations :: "FailureAnnotation list option"

definition emptyMetadata :: FailureMetadata where
  "emptyMetadata = \<lparr>difficulty = None, parseStatus = None, md_failureAnnotations = None\<rparr>"

record FinalEvaluationResult =
  totalScore :: real
  static :: ScoreBreakdown
  runtime :: "real option"
  fr_notes :: "string list"
  errors :: "string list"
  failureLayer :: "string option"
  infrastructureTimeout :: bool
  fr_failureAnnotations :: "FailureAnnotation list"

definition getScoreCap :: "string option \<Rightarrow> real" where
  "getScoreCap failureLayer' =
     (case failureLayer' of
        None \<Rightarrow> 100
      | Some l \<Rightarrow>
          if l = [] then 100
          else if startsWith l ''L5'' then 30
          else if startsWith l ''L4'' then 50
          else if startsWith l ''L3'' then 70
          else if startsWith l ''L2'' then 85
          else 100)"

definition getPriority :: "string \<Rightarrow> int" where
  "getPriority l =
     (if startsWith l ''L5'' then 5
      else if startsWith l ''L4'' then 4
      else if startsWith l ''L3'' then 3
      else if startsWith l ''L2'' then 2
      else 1)"

definition failureCandidates :: "FailureAnnotation list \<Rightarrow> FailureAnnotation list" where
  "failureCandidates annotations =
     filter (\<lambda>a. severity a = Critical \<or> severity a = Error) annotations"

text \<open>
  \<open>failureCandidates.sort((a, b) => getPriority(b.layer) - getPriority(a.layer))\<close>:
  a stable sort, highest priority first.
\<close>

definition sortByPriorityDesc :: "FailureAnnotation list \<Rightarrow> FailureAnnotation list" where
  "sortByPriorityDesc xs = sort_key (\<lambda>a. - getPriority (layerName (layer a))) xs"

definition penaltyStep :: "real \<Rightarrow> FailureAnnotation \<Rightarrow> real" where
  "penaltyStep penalty note =
     (if startsWith (layerName (layer note)) ''L5'' then penalty + 15
      else if startsWith (layerName (layer note)) ''L4'' then penalty + 20
      else if startsWith (layerName (layer note)) ''L3'' then penalty
      else if startsWith (layerName (layer note)) ''L2'' then
        (let p1 = (if severity note = Error then penalty + 5 else penalty)
         in if severity note = Warning then p1 + 2 else p1)
      else penalty)"

definition penaltyOf :: "FailureAnnotation list \<Rightarrow> real" where
  "penaltyOf annotations = foldl penaltyStep 0 annotations"

text \<open>The closed form of the penalty: a fixed amount per qualifying annotation.\<close>

definition penaltySum :: "FailureAnnotation list \<Rightarrow> real" where
  "penaltySum anns =
       15 * real (length (filter (\<lambda>a. layer a = L5_BrowserRuntime) anns))
     + 20 * real (length (filter (\<lambda>a. layer a = L4_Parse) anns))
     + 5 * real (length (filter (\<lambda>a. layer a = L2_CodeQuality \<and> severity a = Error) anns))
     + 2 * real (length (filter (\<lambda>a. layer a = L2_CodeQuality \<and> severity a = Warning) anns))"

definition showCap :: "real \<Rightarrow> string" where
  "showCap c =
     (if c = 30 then ''30'' else if c = 50 then ''50'' else if c = 70 then ''70''
      else if c = 85 then ''85'' else ''100'')"

definition evaluateFinal ::
  "ScoreBreakdown \<Rightarrow> real option \<Rightarrow> FailureMetadata \<Rightarrow> FinalEvaluationResult" where
  "evaluateFinal staticScore runtimeScore metadata =
     (let difficulty' = (case difficulty metadata of None \<Rightarrow> M | Some d \<Rightarrow> d);
          weight = DIFFICULTY_WEIGHTS difficulty';
          annotations = (case md_failureAnnotations metadata of None \<Rightarrow> [] | Some a \<Rightarrow> a);
          candidates = failureCandidates annotations;
          (failureLayer', errors') =
            (case sortByPriorityDesc candidates of
               worst # _ \<Rightarrow>
                 (Some (layerName (layer worst)),
                  [layerName (layer worst) @ '': '' @ message worst])
             | [] \<Rightarrow>
                 if parseStatus metadata = Some INVALID
                 then (Some ''L4/Parse'', [''Model output parsing failed (Legacy Fallback)''])
                 else (None, []));
          baseScore01 =
            (case runtimeScore of
               None \<Rightarrow>
                 0.6 * completeness staticScore + 0.3 * structureScore staticScore
                 + 0.1 * survivability staticScore
             | Some r \<Rightarrow>
                 0.4 * completeness staticScore + 0.2 * structureScore staticScore
                 + 0.1 * survivability staticScore + 0.3 * r);
          baseScore100 = baseScore01 * 100;
          weightedScore = baseScore100 * weight;
          penalty = penaltyOf annotations;
          penalizedScore = weightedScore - penalty;
          cap = getScoreCap failureLayer';
          totalScore' = max 0 (min cap (Math_round penalizedScore));
          notes' =
            (case failureLayer' of
               None \<Rightarrow> [''All validation checks passed'']
             | Some l \<Rightarrow>
                 if l = [] then [''All validation checks passed'']
                 else [''Failure classified as '' @ l, ''Score capped at '' @ showCap cap])
      in \<lparr>totalScore = totalScore', static = staticScore, runtime = runtimeScore,
          fr_notes = notes', errors = errors', failureLayer = failureLayer',
          infrastructureTimeout = False, fr_failureAnnotations = annotations\<rparr>)"

text \<open>
  The vocabulary of the score cap. The dominant failure layer of an evaluation: among
  the annotations of severity critical or error, the layer that is highest in the
  order L5, L4, L3, L2, L1, the first such annotation deciding between the two L1
  layers; without such an annotation, the parse layer when the legacy parse status
  is \<open>INVALID\<close>, and otherwise none. The cap of a layer.
\<close>

definition annotationsOf :: "FailureMetadata \<Rightarrow> FailureAnnotation list" where
  "annotationsOf md = (case md_failureAnnotations md of None \<Rightarrow> [] | Some a \<Rightarrow> a)"

definition failing :: "FailureAnnotation \<Rightarrow> bool" where
  "failing a = (severity a = Critical \<or> severity a = Error)"

definition dominantLayer :: "FailureMetadata \<Rightarrow> FailureLayer option" where
  "dominantLayer md =
     (let failures = filter failing (annotationsOf md)
      in if list_ex (\<lambda>a. layer a = L5_BrowserRuntime) failures then Some L5_BrowserRuntime
         else if list_ex (\<lambda>a. layer a = L4_Parse) failures then Some L4_Parse
         else if list_ex (\<lambda>a. layer a = L3_StaticValidation) failures then Some L3_StaticValidation
         else if list_ex (\<lambda>a. layer a = L2_CodeQuality) failures then Some L2_CodeQuality
         else (case failures of
                 a # rest \<Rightarrow> Some (layer a)
               | [] \<Rightarrow> if parseStatus md = Some INVALID then Some L4_Parse else None))"

definition layerCap :: "FailureLayer option \<Rightarrow> real" where
  "layerCap l =
     (case l of
        None \<Rightarrow> 100
      | Some L5_BrowserRuntime \<Rightarrow> 30
      | Some L4_Parse \<Rightarrow> 50
      | Some L3_StaticValidation \<Rightarrow> 70
      | Some L2_CodeQuality \<Rightarrow> 85
      | Some L1_Model \<Rightarrow> 100
      | Some L1_Warnings \<Rightarrow> 100)"

section \<open>Static evaluator (src/lib/eval/static-eval.ts)\<close>

text \<open>
  A file map \<open>Record<string, string>\<close> is the list of its entries in
  \<open>Object.keys\<close> order. \<open>files[f]\<close> of an absent key is \<open>undefined\<close>, which
  \<open>join\<close> prints as the empty string.
\<close>

type_synonym fileMap = "(string \<times> string) list"

definition fileContent :: "fileMap \<Rightarrow> string \<Rightarrow> string" where
  "fileContent files f = (case map_of files f of Some c \<Rightarrow> c | None \<Rightarrow> [])"

definition bindE :: "fault + 'a \<Rightarrow> ('a \<Rightarrow> fault + 'b) \<Rightarrow> fault + 'b" where
  "bindE m f = (case m of Inl e \<Rightarrow> Inl e | Inr v \<Rightarrow> f v)"

text \<open>
  The loop of \<open>evaluateFileReference\<close> over \<open>targetFiles\<close>, with its two
  variables \<open>foundCount\<close> and \<open>missingTargets\<close>.
\<close>

fun countTargets :: "string \<Rightarrow> string list \<Rightarrow> nat \<times> string list \<Rightarrow> nat \<times> string list" where
  "countTargets joinedHtml [] (foundCount, missingTargets) = (foundCount, missingTargets)"
| "countTargets joinedHtml (t # ts) (foundCount, missingTargets) =
     (if includesStr joinedHtml (toLowerCase t)
      then countTargets joinedHtml ts (foundCount + 1, missingTargets)
      else countTargets joinedHtml ts (foundCount, missingTargets @ [t]))"

definition evaluateFileReference ::
  "fileMap \<Rightarrow> string list \<Rightarrow> FailureAnnotation list \<Rightarrow> fault + (real \<times> FailureAnnotation list)" where
  "evaluateFileReference files requiredFiles annotations =
     (let fileNames = map fst files;
          htmlFiles = filter (\<lambda>f. endsWith f ''.html'') fileNames
      in if length htmlFiles = 0 then
           bindE (makeFailHelper CONNECTIVITY_BROKEN_LINK ''No HTML files found to reference content'')
             (\<lambda>a. Inr (0, annotations @ [a]))
         else
           let targetFiles = filter (\<lambda>f. \<not> endsWith f ''.html'') requiredFiles
           in if length targetFiles = 0 then Inr (1, annotations)
              else
                let joinedHtml = toLowerCase (join [CHR 0x0A] (map (fileContent files) htmlFiles));
                    (foundCount, missingTargets) = countTargets joinedHtml targetFiles (0, [])
                in if foundCount = length targetFiles then Inr (1, annotations)
                   else
                     let score = (if foundCount > 0 then 1 / 2 else 0 :: real)
                     in if score < 1 then
                          let genericFallback =
                                (includesStr joinedHtml ''<script'' \<or> includesStr joinedHtml ''<link''
                                 \<or> includesStr joinedHtml ''href='' \<or> includesStr joinedHtml ''src='')
                          in if score = 0 \<and> genericFallback then
                               bindE (getFailureDef CONNECTIVITY_BROKEN_LINK)
                                 (\<lambda>v. case v of
                                    Def d \<Rightarrow>
                                      Inr (1 / 2, annotations @
                                        [(annotate d
                                           (''No explicit references to required files found, but generic links exist. Missing: ''
                                            @ join '', '' missingTargets))\<lparr>severity := Warning\<rparr>])
                                  | Inherited n \<Rightarrow> Inl (NotADefinition n))
                             else
                               bindE (makeFailHelper CONNECTIVITY_BROKEN_LINK
                                        (''Missing references to required files: ''
                                         @ join '', '' missingTargets))
                                 (\<lambda>a. Inr (score, annotations @
                                          [a\<lparr>evidence := Some (EvMissingFiles missingTargets)\<rparr>]))
                        else Inr (1, annotations))"

text \<open>
  Section 3 of \<open>evaluateStatic\<close>: the four sub-scores have been computed
  (\<open>fileReference\<close>, \<open>scriptBinding\<close>, \<open>apiSchemaLinkage\<close>, \<open>routeConsistency\<close>); the
  task size decides which of them are pushed onto \<open>enabledComponents\<close>, and the
  connectivity score is their sum divided by their number.
\<close>

definition enabledComponents :: "Difficulty \<Rightarrow> real \<Rightarrow> real \<Rightarrow> real \<Rightarrow> real \<Rightarrow> real list" where
  "enabledComponents sz fileReference scriptBinding apiSchemaLinkage routeConsistency =
     [fileReference]
     @ (if sz = S \<or> sz = M \<or> sz = L \<or> sz = XL then [scriptBinding] else [])
     @ (if sz = M \<or> sz = L \<or> sz = XL then [apiSchemaLinkage] else [])
     @ (if sz = L \<or> sz = XL then [routeConsistency] else [])"

definition connectivityOf :: "Difficulty \<Rightarrow> real \<Rightarrow> real \<Rightarrow> real \<Rightarrow> real \<Rightarrow> real" where
  "connectivityOf sz fileReference scriptBinding apiSchemaLinkage routeConsistency =
     (let enabled = enabledComponents sz fileReference scriptBinding apiSchemaLinkage routeConsistency;
          sum = foldl (\<lambda>acc val. acc + val) 0 enabled
      in if length enabled > 0 then sum / real (length enabled) else 1)"

text \<open>
  The vocabulary in which the behaviour of \<open>evaluateFileReference\<close> is stated: the
  markup files, the lower-cased text of all markup files, whether that text mentions
  a path, the required non-markup files, and whether a generic link or script marker
  occurs.
\<close>

definition htmlFilesOf :: "fileMap \<Rightarrow> string list" where
  "htmlFilesOf files = filter (\<lambda>f. endsWith f ''.html'') (map fst files)"

definition joinedHtmlOf :: "fileMap \<Rightarrow> string" where
  "joinedHtmlOf files = toLowerCase (join [CHR 0x0A] (map (fileContent files) (htmlFilesOf files)))"

definition mentioned :: "fileMap \<Rightarrow> string \<Rightarrow> bool" where
  "mentioned files t = includesStr (joinedHtmlOf files) (toLowerCase t)"

definition targetFilesOf :: "string list \<Rightarrow> string list" where
  "targetFilesOf requiredFiles = filter (\<lambda>f. \<not> endsWith f ''.html'') requiredFiles"

definition missingTargetsOf :: "fileMap \<Rightarrow> string list \<Rightarrow> string list" where
  "missingTargetsOf files requiredFiles =
     filter (\<lambda>t. \<not> mentioned files t) (targetFilesOf requiredFiles)"

definition genericFallbackOf :: "fileMap \<Rightarrow> bool" where
  "genericFallbackOf files =
     (includesStr (joinedHtmlOf files) ''<script'' \<or> includesStr (joinedHtmlOf files) ''<link''
      \<or> includesStr (joinedHtmlOf files) ''href='' \<or> includesStr (joinedHtmlOf files) ''src='')"

definition brokenLink :: "FailureSeverity \<Rightarrow> string \<Rightarrow> FailureEvidence option \<Rightarrow> FailureAnnotation" where
  "brokenLink sev msg ev =
     \<lparr>ruleId = ''connectivity/link'', layer = L3_StaticValidation, category = Connectivity,
      severity = sev, message = msg, timestamp = None, evidence = ev\<rparr>"

section \<open>Runtime evaluator (src/lib/eval/runtime-eval.ts)\<close>

record BrowserError =
  be_type :: string
  be_timestamp :: nat
  be_message :: string
  be_url :: "string option"
  be_status :: "nat option"

record BrowserLog =
  bl_type :: string
  bl_timestamp :: nat
  bl_message :: string

record SandboxManifest =
  entry :: string
  filesMounted :: "string list"
  fileHashes :: "(string \<times> string) list"
  generatedAt :: string

record SandboxResult =
  manifest :: "SandboxManifest option"
  externalAccess :: "RuntimeExternalAccess list option"
  logs :: "string list"
  success :: bool
  runtimeErrors :: "BrowserError list option"
  runtimeWarnings :: "BrowserLog list option"
  browserErrors :: "BrowserError list option"
  browserLogs :: "BrowserLog list option"

record RuntimeEvaluation =
  score :: real
  re_failureAnnotations :: "FailureAnnotation list"

text \<open>A \<open>for\<close> loop whose body may throw: the first fault ends the loop.\<close>

fun foldE :: "('a \<Rightarrow> 's \<Rightarrow> fault + 's) \<Rightarrow> 'a list \<Rightarrow> 's \<Rightarrow> fault + 's" where
  "foldE f [] s = Inr s"
| "foldE f (x # xs) s = (case f x s of Inl e \<Rightarrow> Inl e | Inr s' \<Rightarrow> foldE f xs s')"

text \<open>\<open>makeFail\<close> of the evaluator: \<open>{ ...def, message: msg, ...extra }\<close>.\<close>

definition makeFail ::
  "string \<Rightarrow> string \<Rightarrow> nat option \<Rightarrow> FailureEvidence option \<Rightarrow> fault + FailureAnnotation" where
  "makeFail rid msg ts ev =
     bindE (makeFailHelper rid msg) (\<lambda>a. Inr (a\<lparr>timestamp := ts, evidence := ev\<rparr>))"

definition checkIsInternal :: "string \<Rightarrow> string list \<Rightarrow> bool" where
  "checkIsInternal tgt internalFiles =
     (if \<not> startsWith tgt ''file://'' then False
      else list_ex (\<lambda>file. includesStr tgt file) internalFiles)"

text \<open>Step 0: the manifest alignment check.\<close>

definition manifestCheck :: "SandboxResult \<Rightarrow> fault + FailureAnnotation list" where
  "manifestCheck sandboxResult =
     (case manifest sandboxResult of
        None \<Rightarrow> Inr []
      | Some m \<Rightarrow>
          if entry m \<noteq> [] \<and> entry m \<notin> set (filesMounted m) then
            bindE (makeFail RUNTIME_MANIFEST_MISMATCH
                     (''Runtime entry point '' @ [CHR 0x27] @ entry m @ [CHR 0x27]
                      @ '' not found in mounted files'')
                     None (Some (EvEntry (entry m) (filesMounted m))))
              (\<lambda>a. Inr [a])
          else Inr [])"

text \<open>Step 0.1: one iteration of the external-access audit.\<close>

definition auditAccess ::
  "string list \<Rightarrow> RuntimeExternalAccess \<Rightarrow> FailureAnnotation list \<Rightarrow> fault + FailureAnnotation list" where
  "auditAccess internalPaths access anns =
     (let isFile = startsWith (target access) ''file://'';
          isInternal = checkIsInternal (target access) internalPaths
      in if isFile \<and> \<not> isInternal then
           bindE (makeFail RUNTIME_MANIFEST_MISMATCH
                    (''Runtime accessed unmounted file: '' @ target access)
                    None (Some (EvAccessMounted access internalPaths)))
             (\<lambda>a. Inr (anns @ [a]))
         else if \<not> isFile \<and> \<not> isInternal \<and> target access \<noteq> ''about:blank'' then
           if \<not> startsWith (target access) ''data:'' then
             bindE (makeFail RUNTIME_EXTERNAL_ACCESS
                      (''External resource accessed: '' @ target access)
                      None (Some (EvAccess access)))
               (\<lambda>a. Inr (anns @ [a]))
           else Inr anns
         else Inr anns)"

text \<open>
  Step 1: one iteration of the classification loop. The state is
  \<open>sandboxResult.runtimeErrors\<close>, \<open>sandboxResult.runtimeWarnings\<close> and
  \<open>failureAnnotations\<close>.
\<close>

definition classifyError ::
  "BrowserError \<Rightarrow> BrowserError list \<times> BrowserLog list \<times> FailureAnnotation list
   \<Rightarrow> fault + (BrowserError list \<times> BrowserLog list \<times> FailureAnnotation list)" where
  "classifyError err st =
     (case st of (rErrors, rWarnings, anns) \<Rightarrow>
      if be_type err = ''pageerror'' then
        bindE (makeFail RUNTIME_CRASH (be_message err) (Some (be_timestamp err))
                 (Some (EvUrlStack (be_url err) (be_message err))))
          (\<lambda>a. Inr (rErrors @ [err], rWarnings, anns @ [a]))
      else if be_type err = ''network'' then
        if (case be_url err of
              None \<Rightarrow> False
            | Some u \<Rightarrow> u \<noteq> [] \<and> (endsWith u ''.js'' \<or> endsWith u ''.html''))
           \<or> includesStr (be_message err) ''.js''
           \<or> includesStr (be_message err) ''.html''
        then
          bindE (makeFail RUNTIME_NETWORK_FAIL (''Critical Resource Failed: '' @ be_message err)
                   None (Some (EvUrl (be_url err))))
            (\<lambda>a. Inr (rErrors @ [err], rWarnings, anns @ [a]))
        else
          bindE (getFailureDef RUNTIME_NETWORK_FAIL)
            (\<lambda>v. case v of
               Def d \<Rightarrow>
                 Inr (rErrors,
                      rWarnings @ [\<lparr>bl_type = ''console.warn'', bl_timestamp = be_timestamp err,
                                     bl_message = ''[Network] '' @ be_message err\<rparr>],
                      anns @ [(annotate d (''Resource Warning: '' @ be_message err))
                                \<lparr>severity := Warning, evidence := Some (EvUrl (be_url err))\<rparr>])
             | Inherited n \<Rightarrow> Inl (NotADefinition n))
      else if be_type err = ''console.error'' then
        bindE (makeFail RUNTIME_CONSOLE_ERROR (''Console Error: '' @ be_message err)
                 (Some (be_timestamp err)) None)
          (\<lambda>a. Inr (rErrors @ [err], rWarnings, anns @ [a]))
      else
        bindE (getFailureDef RUNTIME_CONSOLE_ERROR)
          (\<lambda>v. case v of
             Def d \<Rightarrow>
               Inr (rErrors,
                    rWarnings @ [\<lparr>bl_type = ''console.warn'', bl_timestamp = be_timestamp err,
                                   bl_message = ''[Unknown Error] '' @ be_message err\<rparr>],
                    anns @ [(annotate d (''Runtime Warning: '' @ be_message err))
                              \<lparr>severity := Warning\<rparr>])
           | Inherited n \<Rightarrow> Inl (NotADefinition n)))"

definition evaluateRuntime :: "SandboxResult \<Rightarrow> fault + (RuntimeEvaluation \<times> SandboxResult)" where
  "evaluateRuntime sandboxResult =
     bindE (manifestCheck sandboxResult) (\<lambda>anns0.
     bindE (case externalAccess sandboxResult of
              None \<Rightarrow> Inr anns0
            | Some accesses \<Rightarrow>
                foldE (auditAccess
                         (case manifest sandboxResult of None \<Rightarrow> [] | Some m \<Rightarrow> filesMounted m))
                  accesses anns0) (\<lambda>anns1.
     let errs = (case browserErrors sandboxResult of None \<Rightarrow> [] | Some l \<Rightarrow> l);
         blogs = (case browserLogs sandboxResult of None \<Rightarrow> [] | Some l \<Rightarrow> l)
     in bindE (foldE classifyError errs ([], [], anns1)) (\<lambda>(rErrors, rWarnings1, anns2).
        let rWarnings = rWarnings1 @ filter (\<lambda>log. bl_type log = ''console.warn'') blogs;
            sandboxResult' = sandboxResult\<lparr>runtimeErrors := Some rErrors,
                                            runtimeWarnings := Some rWarnings\<rparr>
        in if \<not> success sandboxResult then
             bindE (makeFail RUNTIME_CRASH ''Sandbox Execution Failed (Infrastructure/Timeout)''
                      None None)
               (\<lambda>a. Inr (\<lparr>score = 0, re_failureAnnotations = anns2 @ [a]\<rparr>, sandboxResult'))
           else if length rErrors > 0 then
             Inr (\<lparr>score = 0, re_failureAnnotations = anns2\<rparr>, sandboxResult')
           else
             Inr (\<lparr>score = 1, re_failureAnnotations = anns2\<rparr>, sandboxResult'))))"

text \<open>
  The vocabulary of the runtime verdict: a network failure counts as one on a code
  or markup resource when its URL ends in \<open>.js\<close> or \<open>.html\<close> or its message mentions
  \<open>.js\<close> or \<open>.html\<close>; a fatal error is a page error, a console error, or such a
  network failure.
\<close>

definition criticalResource :: "BrowserError \<Rightarrow> bool" where
  "criticalResource e =
     ((case be_url e of
         None \<Rightarrow> False
       | Some u \<Rightarrow> u \<noteq> [] \<and> (endsWith u ''.js'' \<or> endsWith u ''.html''))
      \<or> includesStr (be_message e) ''.js'' \<or> includesStr (be_message e) ''.html'')"

definition isFatal :: "BrowserError \<Rightarrow> bool" where
  "isFatal e =
     (be_type e = ''pageerror'' \<or> be_type e = ''console.error''
      \<or> (be_type e = ''network'' \<and> criticalResource e))"

definition browserErrorsOf :: "SandboxResult \<Rightarrow> BrowserError list" where
  "browserErrorsOf sr = (case browserErrors sr of None \<Rightarrow> [] | Some l \<Rightarrow> l)"

text \<open>A manifest mismatch: a declared entry point that is not among the mounted files.\<close>

definition manifestMismatch :: "SandboxResult \<Rightarrow> bool" where
  "manifestMismatch sr =
     (case manifest sr of
        None \<Rightarrow> False
      | Some m \<Rightarrow> entry m \<noteq> [] \<and> entry m \<notin> set (filesMounted m))"

section \<open>Parsing gate (src/lib/parsing/model-output-parser.ts)\<close>

text \<open>
  The validators take \<open>any\<close>, so their argument is a JavaScript value. Property
  reads are own-property reads: the two names read here, \<open>files\<close> and \<open>path\<close>, are not
  inherited by plain objects or arrays. Numbers are reals (\<open>NaN\<close> is not
  represented).
\<close>

datatype js =
  JUndefined
| JNull
| JBool bool
| JNum real
| JStr string
| JArr "js list"
| JObj "(string \<times> js) list"

fun truthy :: "js \<Rightarrow> bool" where
  "truthy JUndefined = False"
| "truthy JNull = False"
| "truthy (JBool b) = b"
| "truthy (JNum n) = (n \<noteq> 0)"
| "truthy (JStr s) = (s \<noteq> [])"
| "truthy (JArr xs) = True"
| "truthy (JObj kvs) = True"

text \<open>\<open>typeof v === 'object'\<close> holds of \<open>null\<close>, arrays and objects.\<close>

fun typeofObject :: "js \<Rightarrow> bool" where
  "typeofObject JNull = True"
| "typeofObject (JArr xs) = True"
| "typeofObject (JObj kvs) = True"
| "typeofObject v = False"

fun getProp :: "js \<Rightarrow> string \<Rightarrow> js" where
  "getProp (JObj kvs) k = (case map_of kvs k of Some v \<Rightarrow> v | None \<Rightarrow> JUndefined)"
| "getProp v k = JUndefined"

fun showNat :: "nat \<Rightarrow> string" where
  "showNat n =
     (if n < 10 then [char_of (48 + n)] else showNat (n div 10) @ [char_of (48 + n mod 10)])"

declare showNat.simps [simp del]

text \<open>\<open>Object.keys\<close> with the values: the entries of an object, the indexed elements of an array.\<close>

fun objectEntries :: "js \<Rightarrow> (string \<times> js) list" where
  "objectEntries (JObj kvs) = kvs"
| "objectEntries (JArr xs) = zip (map showNat [0..<length xs]) xs"
| "objectEntries v = []"

definition treeFiles :: "js \<Rightarrow> js list option" where
  "treeFiles tree =
     (case getProp tree ''files'' of
        JArr fs \<Rightarrow> Some fs
      | _ \<Rightarrow> (case tree of JArr xs \<Rightarrow> Some xs | _ \<Rightarrow> None))"

text \<open>The loop of \<open>validateTreeSpec\<close> over the file entries.\<close>

fun validTreeEntries :: "js list \<Rightarrow> bool" where
  "validTreeEntries [] = True"
| "validTreeEntries (f # fs) =
     (if \<not> truthy f \<or> \<not> typeofObject f then False
      else if (case getProp f ''path'' of JStr p \<Rightarrow> length (trim p) = 0 | _ \<Rightarrow> True) then False
      else validTreeEntries fs)"

definition validateTreeSpec :: "js \<Rightarrow> bool" where
  "validateTreeSpec tree =
     (if \<not> truthy tree \<or> \<not> typeofObject tree then False
      else case treeFiles tree of
             None \<Rightarrow> False
           | Some files \<Rightarrow> validTreeEntries files)"

fun validArtifactEntries :: "(string \<times> js) list \<Rightarrow> bool" where
  "validArtifactEntries [] = True"
| "validArtifactEntries ((k, v) # rest) =
     (if length (trim k) = 0 then False
      else if (case v of JStr s \<Rightarrow> False | _ \<Rightarrow> True) then False
      else validArtifactEntries rest)"

definition validateArtifactsSpec :: "js \<Rightarrow> bool" where
  "validateArtifactsSpec artifacts =
     (if \<not> truthy artifacts \<or> \<not> typeofObject artifacts then False
      else
        let files = getProp artifacts ''files''
        in if \<not> truthy files \<or> \<not> typeofObject files then False
           else
             let entries = objectEntries files
             in if length entries = 0 then False else validArtifactEntries entries)"

text \<open>
  \<open>CombinedModelOutput\<close>; the field \<open>raw\<close>, the \<open>JSON.stringify\<close> of the other two,
  is left out.
\<close>

record CombinedModelOutput =
  co_tree :: js
  co_artifacts :: js

definition parseModelOutput :: "js \<Rightarrow> js \<Rightarrow> CombinedModelOutput option" where
  "parseModelOutput tree artifacts =
     (if \<not> validateTreeSpec tree then None
      else if \<not> validateArtifactsSpec artifacts then None
      else Some \<lparr>co_tree = tree, co_artifacts = artifacts\<rparr>)"

section \<open>Task specification and artifacts (src/lib/types.ts)\<close>

text \<open>
  \<open>taskId\<close> and \<open>taskSize\<close> are the fields \<open>id\<close> and \<open>size\<close>; \<open>requiredFiles\<close> is
  \<open>question.treeRules.requiredFiles\<close>. The runtime type is a string so that the
  runner's branch for an unknown type has an input.
\<close>

record RuntimeSpec =
  rt_type :: "string option"
  buildCommand :: "string option"
  rt_entry :: "string option"

record TaskSpec =
  taskId :: string
  taskSize :: Difficulty
  requiredFiles :: "string list"
  runtimeSpec :: "RuntimeSpec option"
  timeBudgetMs :: "nat option"

record ExecutionArtifacts =
  html :: string
  art_logs :: "string list"
  art_errors :: "string list option"
  art_files :: fileMap

text \<open>A string used as a condition: \<open>undefined\<close> and the empty string are falsy.\<close>

definition truthyStr :: "string option \<Rightarrow> bool" where
  "truthyStr s = (case s of None \<Rightarrow> False | Some x \<Rightarrow> x \<noteq> [])"

section \<open>Sandbox runner (src/lib/runtime/sandbox-runner.ts)\<close>

text \<open>
  A promise ends in one of three ways: it resolves with a value, it rejects with a
  fault (here its message), or it never settles.
\<close>

datatype 'a outcome = Resolved 'a | Rejected string | Pending

text \<open>
  What the runner asks of its environment is a parameter of the model:
  \<^item> \<open>tmpDirSync\<close>: \<open>tmp.dirSync\<close> returns the scratch directory or throws;
  \<^item> \<open>writeFile\<close>: \<open>mkdirSync\<close> and \<open>writeFileSync\<close> for one artifact path succeed or throw
    (the message);
  \<^item> \<open>spawn\<close>: what the child process of one command does: \<open>spawn\<close> throws
    synchronously, or the process emits its output (with the timeout timer possibly
    firing in between) and then closes with an exit code, or emits \<open>error\<close>, or
    neither event ever comes;
  \<^item> \<open>existsSync\<close>: whether the browser entry exists in the scratch directory;
  \<^item> \<open>runInBrowser\<close>: the browser runner returns its result or throws;
  \<^item> \<open>guardPath\<close>: the resolved path of the compiled file-system guard.
\<close>

datatype ProcEvent = Data string | TimerFired

datatype ProcEnd = SpawnThrows string | Closes "int option" | Errors string | NeverEnds

record SpawnRun =
  procEvents :: "ProcEvent list"
  procEnd :: ProcEnd

record BrowserRunnerResult =
  br_browserErrors :: "BrowserError list"
  br_browserLogs :: "BrowserLog list"
  br_externalAccess :: "RuntimeExternalAccess list"

record SandboxEnv =
  tmpDirSync :: "string + string"
  writeFile :: "string \<Rightarrow> string option"
  spawn :: "string \<Rightarrow> SpawnRun"
  existsSync :: "string \<Rightarrow> bool"
  runInBrowser :: "string \<Rightarrow> string + BrowserRunnerResult"
  guardPath :: string

text \<open>
  \<open>runCommand\<close>: a promise with only a \<open>resolve\<close>. The data handlers and the timer
  push lines onto the shared log; \<open>close\<close> resolves with the exit code (1 when it
  is \<open>null\<close>), \<open>error\<close> pushes a line and resolves with 1. When \<open>spawn\<close> throws
  inside the executor the promise rejects; when neither event comes it never
  settles. The value is the log after the run and the exit code.
\<close>

definition runCommand ::
  "SandboxEnv \<Rightarrow> string \<Rightarrow> nat \<Rightarrow> string list \<Rightarrow> (string list \<times> int) outcome" where
  "runCommand env command timeoutMs lg =
     (let run = spawn env command;
          lg1 = lg @ map (\<lambda>e. case e of
                              Data d \<Rightarrow> d
                            | TimerFired \<Rightarrow> ''[Sandbox] Timeout after '' @ showNat timeoutMs
                                            @ ''ms: '' @ command)
                       (procEvents run)
      in case procEnd run of
           SpawnThrows msg \<Rightarrow> Rejected msg
         | Closes code \<Rightarrow> Resolved (lg1, case code of None \<Rightarrow> 1 | Some c \<Rightarrow> c)
         | Errors msg \<Rightarrow> Resolved (lg1 @ [''[Sandbox] Process error: '' @ msg], 1)
         | NeverEnds \<Rightarrow> Pending)"

text \<open>The write loop: the message of the first write that throws, if any.\<close>

fun writeFiles :: "(string \<Rightarrow> string option) \<Rightarrow> fileMap \<Rightarrow> string option" where
  "writeFiles w [] = None"
| "writeFiles w ((filePath, content) # rest) =
     (case w filePath of Some msg \<Rightarrow> Some msg | None \<Rightarrow> writeFiles w rest)"

definition sandboxResult ::
  "bool \<Rightarrow> string list \<Rightarrow> SandboxManifest option \<Rightarrow> BrowserError list option
   \<Rightarrow> BrowserLog list option \<Rightarrow> RuntimeExternalAccess list option \<Rightarrow> SandboxResult" where
  "sandboxResult ok lg mf errs blogs ext =
     \<lparr>manifest = mf, externalAccess = ext, logs = lg, success = ok, runtimeErrors = None,
      runtimeWarnings = None, browserErrors = errs, browserLogs = blogs\<rparr>"

text \<open>
  The body of the \<open>async\<close> function, from the runtime part on; \<open>lg\<close> is the log so
  far. The function is called without \<open>await\<close> and without a handler, so when an
  awaited \<open>runCommand\<close> rejects, nothing calls \<open>resolve\<close> and the promise of
  \<open>runInSandbox\<close> never settles.
\<close>

definition runRuntime ::
  "SandboxEnv \<Rightarrow> string list \<Rightarrow> string option \<Rightarrow> string option \<Rightarrow> SandboxManifest option
   \<Rightarrow> SandboxResult outcome" where
  "runRuntime env lg runtimeType entryPoint mf =
     (if \<not> truthyStr entryPoint then Resolved (sandboxResult True lg mf None None None)
      else
        let entryName = (case entryPoint of Some e \<Rightarrow> e | None \<Rightarrow> [])
        in if runtimeType = Some ''browser'' then
             let htmlName = (if endsWith entryName ''.html'' then entryName else ''index.html'');
                 lg1 = lg @ [''[Sandbox] Browser Runtime: '' @ htmlName]
             in if \<not> existsSync env htmlName then
                  Resolved (sandboxResult False
                              (lg1 @ [''[Sandbox] Missing browser entry: '' @ htmlName])
                              None None None None)
                else
                  (case runInBrowser env htmlName of
                     Inr result \<Rightarrow>
                       Resolved (sandboxResult (length (br_browserErrors result) = 0)
                         (lg1 @ [''[Sandbox] Browser completed: ''
                                 @ showNat (length (br_browserErrors result)) @ '' errors, ''
                                 @ showNat (length (br_browserLogs result)) @ '' logs''])
                         mf (Some (br_browserErrors result)) (Some (br_browserLogs result))
                         (Some (br_externalAccess result)))
                   | Inl msg \<Rightarrow>
                       Resolved (sandboxResult False
                                   (lg1 @ [''[Sandbox] Browser crashed: '' @ msg])
                                   None None None None))
           else if runtimeType = Some ''node'' then
             let cmd = ''node -r '' @ [CHR 0x22] @ guardPath env @ [CHR 0x22] @ '' '' @ [CHR 0x22]
                         @ entryName @ [CHR 0x22]
             in (case runCommand env cmd 5000
                        (lg @ [''[Sandbox] Node Runtime: '' @ entryName, ''[Sandbox] Cmd: '' @ cmd]) of
                   Resolved (lg1, code) \<Rightarrow> Resolved (sandboxResult (code = 0) lg1 mf None None None)
                 | Rejected msg \<Rightarrow> Pending
                 | Pending \<Rightarrow> Pending)
           else
             Resolved (sandboxResult False (lg @ [''[Sandbox] Unknown runtime type''])
                         None None None None))"

definition runInSandbox ::
  "SandboxEnv \<Rightarrow> ExecutionArtifacts \<Rightarrow> TaskSpec \<Rightarrow> SandboxManifest option \<Rightarrow> SandboxResult outcome" where
  "runInSandbox env artifacts taskSpec mf =
     (case tmpDirSync env of
        Inl msg \<Rightarrow> Rejected msg
      | Inr tempDir \<Rightarrow>
          (case writeFiles (writeFile env) (art_files artifacts) of
             Some msg \<Rightarrow>
               Resolved (sandboxResult False
                           [''[Sandbox] Internal error: '' @ msg, ''[Sandbox] Internal error: '' @ msg]
                           mf None None None)
           | None \<Rightarrow>
               let runtimeType = (case runtimeSpec taskSpec of None \<Rightarrow> None | Some r \<Rightarrow> rt_type r);
                   entryPoint = (case runtimeSpec taskSpec of None \<Rightarrow> None | Some r \<Rightarrow> rt_entry r);
                   buildCmd = (case runtimeSpec taskSpec of None \<Rightarrow> None | Some r \<Rightarrow> buildCommand r)
               in if truthyStr buildCmd then
                    let cmd = (case buildCmd of Some c \<Rightarrow> c | None \<Rightarrow> [])
                    in (case runCommand env cmd 30000 [''[Sandbox] Build: '' @ cmd] of
                          Resolved (lg, code) \<Rightarrow>
                            if code \<noteq> 0 then
                              Resolved (sandboxResult False lg None (Some []) (Some []) None)
                            else runRuntime env lg runtimeType entryPoint mf
                        | Rejected msg \<Rightarrow> Pending
                        | Pending \<Rightarrow> Pending)
                  else runRuntime env [] runtimeType entryPoint mf))"

text \<open>
  Environments and tasks for evaluation: one environment in which everything works,
  one without a scratch directory, one in which \<open>spawn\<close> throws; a task without
  runtime and one with a build step.
\<close>

definition workingEnv :: SandboxEnv where
  "workingEnv =
     \<lparr>tmpDirSync = Inr ''/tmp/tmp-1'', writeFile = (\<lambda>p. None),
      spawn = (\<lambda>c. \<lparr>procEvents = [], procEnd = Closes (Some 0)\<rparr>), existsSync = (\<lambda>p. True),
      runInBrowser = (\<lambda>p. Inr \<lparr>br_browserErrors = [], br_browserLogs = [],
                                    br_externalAccess = []\<rparr>),
      guardPath = ''/app/dist/fs-guard.js''\<rparr>"

definition noScratchEnv :: SandboxEnv where
  "noScratchEnv = workingEnv\<lparr>tmpDirSync := Inl ''ENOSPC: no space left on device, mkdir''\<rparr>"

definition spawnThrowsEnv :: SandboxEnv where
  "spawnThrowsEnv =
     workingEnv\<lparr>spawn := (\<lambda>c. \<lparr>procEvents = [], procEnd = SpawnThrows ''spawn ENOMEM''\<rparr>)\<rparr>"

definition staticOnlyTask :: TaskSpec where
  "staticOnlyTask =
     \<lparr>taskId = ''xs_task'', taskSize = XS, requiredFiles = [''index.html''],
      runtimeSpec = None, timeBudgetMs = None\<rparr>"

definition buildTask :: TaskSpec where
  "buildTask =
     \<lparr>taskId = ''m_task'', taskSize = M, requiredFiles = [''index.html''],
      runtimeSpec = Some \<lparr>rt_type = Some ''browser'', buildCommand = Some ''npm run build'',
                           rt_entry = Some ''index.html''\<rparr>,
      timeBudgetMs = None\<rparr>"

definition oneFileArtifacts :: ExecutionArtifacts where
  "oneFileArtifacts =
     \<lparr>html = ''<!DOCTYPE html>'', art_logs = [], art_errors = None,
      art_files = [(''index.html'', ''<!DOCTYPE html>'')]\<rparr>"

section \<open>Pipeline orchestrator (src/lib/exec.ts)\<close>

text \<open>
  The generation collaborator returns \<open>{tree?, artifacts?, logs, usage?}\<close>; an absent
  \<open>tree\<close> or \<open>artifacts\<close> is \<open>JUndefined\<close>, \<open>usage\<close> is its \<open>totalTokens\<close>.
\<close>

record ModelGenerateFnOutput =
  out_tree :: js
  out_artifacts :: js
  out_logs :: "string list"
  usage :: "nat option"

text \<open>
  One call of the collaborator, as the orchestrator can observe it: how the promise
  of \<open>modelGenerateFn(req)\<close> ends, and, for the deadline race of the XL tier,
  whether the deadline had already passed when the call was due
  (\<open>remaining <= 0\<close>) and whether the timer fires before the promise settles.
\<close>

record GenCall =
  settles :: "ModelGenerateFnOutput outcome"
  deadlinePassed :: bool
  timerFirst :: bool

record CallResult =
  cr_result :: "ModelGenerateFnOutput option"
  cr_timeout :: bool

definition callWithTimeout :: "bool \<Rightarrow> GenCall \<Rightarrow> CallResult outcome" where
  "callWithTimeout isXL call =
     (if \<not> isXL then
        (case settles call of
           Resolved r \<Rightarrow> Resolved \<lparr>cr_result = Some r, cr_timeout = False\<rparr>
         | Rejected e \<Rightarrow> Rejected e
         | Pending \<Rightarrow> Pending)
      else if deadlinePassed call then Resolved \<lparr>cr_result = None, cr_timeout = True\<rparr>
      else
        (case settles call of
           Pending \<Rightarrow> Resolved \<lparr>cr_result = None, cr_timeout = True\<rparr>
         | Resolved r \<Rightarrow>
             if timerFirst call then Resolved \<lparr>cr_result = None, cr_timeout = True\<rparr>
             else Resolved \<lparr>cr_result = Some r, cr_timeout = False\<rparr>
         | Rejected e \<Rightarrow>
             if timerFirst call then Resolved \<lparr>cr_result = None, cr_timeout = True\<rparr>
             else Rejected e))"

text \<open>
  The environment of one run: the two collaborator calls, the static evaluator
  (asynchronous, with the lint collaborator behind it), the sandbox environment, the
  hash function and the clock reading used for the manifest.
\<close>

record RunEnv =
  treeCall :: GenCall
  filesCall :: GenCall
  evaluateStatic :: "ExecutionArtifacts \<Rightarrow> TaskSpec \<Rightarrow> ScoreBreakdown outcome"
  sandboxEnv :: SandboxEnv
  sha256hex :: "string \<Rightarrow> string"
  isoNow :: string

text \<open>
  The calls the orchestrator makes to the runtime side and to the final evaluator,
  in order; \<open>FinalEval r\<close> records the runtime score passed to \<open>evaluateFinal\<close>.
\<close>

datatype event = SandboxRun | RuntimeEval | FinalEval "real option"

text \<open>
  The returned object. Of \<open>metadata\<close> the fields that carry results are kept; the
  time tracking, the ESG fields and the benchmark accumulator update are left out,
  and log entries are their messages.
\<close>

record ExecutionMetadata =
  md_taskId :: string
  md_tree :: js
  md_combined :: "CombinedModelOutput option"
  md_staticScore :: ScoreBreakdown
  md_runtimeScore :: "real option"
  md_finalResult :: FinalEvaluationResult
  md_infrastructureTimeout :: bool
  md_browser :: "(BrowserError list option \<times> BrowserLog list option) option"
  md_evalTokens :: nat

record ExecutionResult =
  er_artifacts :: ExecutionArtifacts
  er_metadata :: ExecutionMetadata

definition tokensOf :: "CallResult \<Rightarrow> nat" where
  "tokensOf r =
     (case cr_result r of
        None \<Rightarrow> 0
      | Some out \<Rightarrow> (case usage out of None \<Rightarrow> 0 | Some t \<Rightarrow> t))"

definition declaresRuntime :: "TaskSpec \<Rightarrow> bool" where
  "declaresRuntime taskSpec =
     (case runtimeSpec taskSpec of
        None \<Rightarrow> False
      | Some r \<Rightarrow> truthyStr (rt_entry r) \<or> truthyStr (buildCommand r))"

text \<open>
  The terminal result of the tree phase and of the files phase when the output is
  missing or the deadline won (the two blocks are the same up to the phase name and
  the preserved tree).
\<close>

definition modelFailure ::
  "TaskSpec \<Rightarrow> bool \<Rightarrow> string \<Rightarrow> js \<Rightarrow> nat \<Rightarrow> event list \<times> ExecutionResult outcome" where
  "modelFailure taskSpec timedOut phaseName tree tokens =
     (let staticScore0 = \<lparr>completeness = 0, structureScore = 0, survivability = 0,
                           connectivity = 0, failureAnnotations = []\<rparr>;
          runtimeScore0 = (if declaresRuntime taskSpec then Some 0 else None);
          fr0 = evaluateFinal staticScore0 runtimeScore0 emptyMetadata;
          fr = (if timedOut
                then fr0\<lparr>infrastructureTimeout := True,
                         fr_notes := fr_notes fr0 @ [''Infrastructure Timeout Triggered'']\<rparr>
                else fr0)
      in ([FinalEval runtimeScore0],
          Resolved
            \<lparr>er_artifacts =
               \<lparr>html = [], art_logs = [],
                art_errors = (if timedOut
                              then Some [''Infrastructure Timeout during '' @ phaseName @ '' Phase'']
                              else None),
                art_files = []\<rparr>,
             er_metadata =
               \<lparr>md_taskId = taskId taskSpec, md_tree = tree, md_combined = None,
                md_staticScore = staticScore0, md_runtimeScore = runtimeScore0,
                md_finalResult = fr, md_infrastructureTimeout = timedOut,
                md_browser = None, md_evalTokens = tokens\<rparr>\<rparr>))"

definition filesOfJs :: "js \<Rightarrow> fileMap" where
  "filesOfJs artifactsSpec =
     map (\<lambda>(k, v). (k, case v of JStr s \<Rightarrow> s | _ \<Rightarrow> []))
       (objectEntries (getProp artifactsSpec ''files''))"

definition faultMessage :: "fault \<Rightarrow> string" where
  "faultMessage f =
     (case f of
        UnknownRuleId rid \<Rightarrow> ''[FailureRegistry] Unknown Rule ID: '' @ rid
      | NotADefinition n \<Rightarrow> ''TypeError'')"

text \<open>Step 8 and the return statement.\<close>

definition finishTask ::
  "TaskSpec \<Rightarrow> event list \<Rightarrow> js \<Rightarrow> CombinedModelOutput option \<Rightarrow> ExecutionArtifacts
   \<Rightarrow> ScoreBreakdown \<Rightarrow> real option \<Rightarrow> (SandboxResult \<times> FailureAnnotation list) option \<Rightarrow> nat
   \<Rightarrow> event list \<times> ExecutionResult outcome" where
  "finishTask taskSpec trace tree combined artifacts staticScore runtimeScore sandboxInfo tokens =
     (let runtimeAnnotations =
            (case sandboxInfo of
               None \<Rightarrow> []
             | Some (sr, anns) \<Rightarrow>
                 if browserErrors sr \<noteq> None \<or> browserLogs sr \<noteq> None then [] else anns);
          mergedAnnotations = failureAnnotations staticScore @ runtimeAnnotations;
          fr = evaluateFinal staticScore runtimeScore
                 \<lparr>difficulty = Some (taskSize taskSpec), parseStatus = None,
                  md_failureAnnotations = Some mergedAnnotations\<rparr>
      in (trace @ [FinalEval runtimeScore],
          Resolved
            \<lparr>er_artifacts = artifacts,
             er_metadata =
               \<lparr>md_taskId = taskId taskSpec, md_tree = tree, md_combined = combined,
                md_staticScore = staticScore, md_runtimeScore = runtimeScore,
                md_finalResult = fr, md_infrastructureTimeout = False,
                md_browser = (case sandboxInfo of
                                None \<Rightarrow> None
                              | Some (sr, anns) \<Rightarrow> Some (browserErrors sr, browserLogs sr)),
                md_evalTokens = tokens\<rparr>\<rparr>))"

text \<open>Steps 3 to 7, entered when both phases produced their output in time.\<close>

definition gradeArtifacts ::
  "RunEnv \<Rightarrow> TaskSpec \<Rightarrow> js \<Rightarrow> js \<Rightarrow> string list \<Rightarrow> nat
   \<Rightarrow> event list \<times> ExecutionResult outcome" where
  "gradeArtifacts env taskSpec tree artifactsSpec allLogs tokens =
     (let combined = parseModelOutput tree artifactsSpec;
          valid = (combined \<noteq> None);
          artifacts =
            \<lparr>html = (if valid
                      then (case getProp (getProp artifactsSpec ''files'') ''index.html'' of
                              JStr s \<Rightarrow> s
                            | _ \<Rightarrow> [])
                      else []),
             art_logs = allLogs, art_errors = None,
             art_files = (if valid then filesOfJs artifactsSpec else [])\<rparr>;
          sandboxManifest =
            (if valid
             then Some \<lparr>entry = (case runtimeSpec taskSpec of
                                    None \<Rightarrow> []
                                  | Some r \<Rightarrow> (case rt_entry r of None \<Rightarrow> [] | Some e \<Rightarrow> e)),
                        filesMounted = map fst (art_files artifacts),
                        fileHashes = map (\<lambda>(p, c). (p, sha256hex env c)) (art_files artifacts),
                        generatedAt = isoNow env\<rparr>
             else None);
          staticOutcome =
            (if valid then evaluateStatic env artifacts taskSpec
             else Resolved \<lparr>completeness = 0.5, structureScore = 0, survivability = 0,
                             connectivity = 0, failureAnnotations = []\<rparr>)
      in case staticOutcome of
           Rejected e \<Rightarrow> ([], Rejected e)
         | Pending \<Rightarrow> ([], Pending)
         | Resolved staticScore \<Rightarrow>
             let needsRuntime =
                   (taskSize taskSpec = M \<or> taskSize taskSpec = L \<or> taskSize taskSpec = XL)
             in if needsRuntime \<and> valid then
                  (case runInSandbox (sandboxEnv env) artifacts taskSpec sandboxManifest of
                     Rejected e \<Rightarrow> ([SandboxRun], Rejected e)
                   | Pending \<Rightarrow> ([SandboxRun], Pending)
                   | Resolved sr \<Rightarrow>
                       (case evaluateRuntime sr of
                          Inl f \<Rightarrow> ([SandboxRun, RuntimeEval], Rejected (faultMessage f))
                        | Inr (ev, sr') \<Rightarrow>
                            let lg = art_logs artifacts @ logs sr'
                                     @ (if browserErrors sr' \<noteq> None \<or> browserLogs sr' \<noteq> None
                                        then [''Browser validation: ''
                                              @ showNat (case browserErrors sr' of
                                                           None \<Rightarrow> 0 | Some l \<Rightarrow> length l)
                                              @ '' errors, ''
                                              @ showNat (case browserLogs sr' of
                                                           None \<Rightarrow> 0 | Some l \<Rightarrow> length l)
                                              @ '' logs'']
                                        else [])
                            in finishTask taskSpec [SandboxRun, RuntimeEval] tree combined
                                 (artifacts\<lparr>art_logs := lg\<rparr>) staticScore (Some (score ev))
                                 (Some (sr', re_failureAnnotations ev)) tokens))
                else finishTask taskSpec [] tree combined artifacts staticScore None None tokens)"

definition runTask :: "RunEnv \<Rightarrow> TaskSpec \<Rightarrow> event list \<times> ExecutionResult outcome" where
  "runTask env taskSpec =
     (let isXL = (taskSize taskSpec = XL)
      in case callWithTimeout isXL (treeCall env) of
           Rejected e \<Rightarrow> ([], Rejected e)
         | Pending \<Rightarrow> ([], Pending)
         | Resolved treeCallResult \<Rightarrow>
             let tokens1 = tokensOf treeCallResult;
                 tree = (case cr_result treeCallResult of
                           None \<Rightarrow> JUndefined
                         | Some out \<Rightarrow> out_tree out)
             in if \<not> truthy tree \<or> cr_timeout treeCallResult then
                  modelFailure taskSpec (cr_timeout treeCallResult) ''Tree'' JNull tokens1
                else
                  (case callWithTimeout isXL (filesCall env) of
                     Rejected e \<Rightarrow> ([], Rejected e)
                   | Pending \<Rightarrow> ([], Pending)
                   | Resolved filesCallResult \<Rightarrow>
                       let tokens2 = tokens1 + tokensOf filesCallResult;
                           artifactsSpec = (case cr_result filesCallResult of
                                              None \<Rightarrow> JUndefined
                                            | Some out \<Rightarrow> out_artifacts out)
                       in if \<not> truthy artifactsSpec \<or> cr_timeout filesCallResult then
                            modelFailure taskSpec (cr_timeout filesCallResult) ''Files'' tree tokens2
                          else
                            gradeArtifacts env taskSpec tree artifactsSpec
                              ((case cr_result treeCallResult of
                                  None \<Rightarrow> [] | Some out \<Rightarrow> out_logs out)
                               @ (case cr_result filesCallResult of
                                    None \<Rightarrow> [] | Some out \<Rightarrow> out_logs out))
                              tokens2))"

text \<open>
  The vocabulary for the orchestrator's properties: what each phase handed over (the
  tree, the artifacts, when the call resolved in time with a truthy value), whether
  the bundle passed the parsing gate, and an environment and task for evaluation.
\<close>

definition producedTree :: "RunEnv \<Rightarrow> TaskSpec \<Rightarrow> js option" where
  "producedTree env taskSpec =
     (case callWithTimeout (taskSize taskSpec = XL) (treeCall env) of
        Resolved r \<Rightarrow>
          (case cr_result r of
             Some out \<Rightarrow> if truthy (out_tree out) \<and> \<not> cr_timeout r then Some (out_tree out) else None
           | None \<Rightarrow> None)
      | _ \<Rightarrow> None)"

definition producedArtifacts :: "RunEnv \<Rightarrow> TaskSpec \<Rightarrow> js option" where
  "producedArtifacts env taskSpec =
     (case callWithTimeout (taskSize taskSpec = XL) (filesCall env) of
        Resolved r \<Rightarrow>
          (case cr_result r of
             Some out \<Rightarrow>
               if truthy (out_artifacts out) \<and> \<not> cr_timeout r then Some (out_artifacts out) else None
           | None \<Rightarrow> None)
      | _ \<Rightarrow> None)"

definition gatePassed :: "RunEnv \<Rightarrow> TaskSpec \<Rightarrow> bool" where
  "gatePassed env taskSpec =
     (case (producedTree env taskSpec, producedArtifacts env taskSpec) of
        (Some t, Some a) \<Rightarrow> parseModelOutput t a \<noteq> None
      | _ \<Rightarrow> False)"

definition emptyOutput :: ModelGenerateFnOutput where
  "emptyOutput = \<lparr>out_tree = JUndefined, out_artifacts = JUndefined, out_logs = [], usage = None\<rparr>"

definition goodOutput :: ModelGenerateFnOutput where
  "goodOutput =
     \<lparr>out_tree = JObj [(''files'', JArr [JObj [(''path'', JStr ''index.html''),
                                                (''type'', JStr ''html'')]])],
      out_artifacts = JObj [(''files'', JObj [(''index.html'', JStr ''<!DOCTYPE html>'')])],
      out_logs = [], usage = Some 10\<rparr>"

definition perfectStatic :: "ExecutionArtifacts \<Rightarrow> TaskSpec \<Rightarrow> ScoreBreakdown outcome" where
  "perfectStatic a t =
     Resolved \<lparr>completeness = 1, structureScore = 1, survivability = 1, connectivity = 1,
               failureAnnotations = []\<rparr>"

definition callOf :: "ModelGenerateFnOutput outcome \<Rightarrow> GenCall" where
  "callOf out = \<lparr>settles = out, deadlinePassed = False, timerFirst = False\<rparr>"

definition runEnvOf :: "GenCall \<Rightarrow> GenCall \<Rightarrow> RunEnv" where
  "runEnvOf t f =
     \<lparr>treeCall = t, filesCall = f, evaluateStatic = perfectStatic, sandboxEnv = workingEnv,
      sha256hex = (\<lambda>c. []), isoNow = []\<rparr>"

definition browserTask :: "Difficulty \<Rightarrow> TaskSpec" where
  "browserTask sz =
     \<lparr>taskId = ''task'', taskSize = sz, requiredFiles = [''index.html''],
      runtimeSpec = Some \<lparr>rt_type = Some ''browser'', buildCommand = None,
                           rt_entry = Some ''index.html''\<rparr>,
      timeBudgetMs = None\<rparr>"

section \<open>Verified properties\<close>

lemmas RULE_IDS =
  RUNTIME_CRASH_def RUNTIME_CONSOLE_ERROR_def RUNTIME_NETWORK_FAIL_def RUNTIME_TIMEOUT_def
  RUNTIME_MANIFEST_MISMATCH_def RUNTIME_EXTERNAL_ACCESS_def PARSE_INVALID_JSON_def
  PARSE_MISSING_TREE_def PARSE_MISSING_ARTIFACTS_def CONNECTIVITY_BROKEN_LINK_def
  CONNECTIVITY_BROKEN_BINDING_def CONNECTIVITY_SCHEMA_MISMATCH_def
  CONNECTIVITY_ROUTE_CONSISTENCY_def LINT_ESLINT_A_def LINT_ESLINT_B_def LINT_ESLINT_C_def
  MODEL_NO_OUTPUT_def

subsection \<open>Failure registry\<close>

lemma getFailureDef_registered:
  "(rid, d) \<in> set FAILURE_REGISTRY \<Longrightarrow> getFailureDef rid = Inr (Def d) \<and> ruleId d = rid"
  apply (simp add: getFailureDef_def registryGet_def FAILURE_REGISTRY_def RULE_IDS mkDef_def)
  apply (elim disjE; simp)
  done

lemma getFailureDef_unknown:
  "rid \<notin> fst ` set FAILURE_REGISTRY \<Longrightarrow> rid \<notin> set objectPrototypeKeys
   \<Longrightarrow> getFailureDef rid = Inl (UnknownRuleId rid)"
  by (simp add: getFailureDef_def registryGet_def map_of_eq_None_iff [THEN iffD2])

lemma getFailureDef_throws_iff:
  "(\<exists>e. getFailureDef rid = Inl e)
   \<longleftrightarrow> rid \<notin> fst ` set FAILURE_REGISTRY \<and> rid \<notin> set objectPrototypeKeys"
proof (cases "map_of FAILURE_REGISTRY rid")
  case None
  then have "rid \<notin> fst ` set FAILURE_REGISTRY" by (simp add: map_of_eq_None_iff)
  with None show ?thesis by (simp add: getFailureDef_def registryGet_def)
next
  case (Some d)
  then have "rid \<in> fst ` set FAILURE_REGISTRY"
    by (metis map_of_eq_None_iff option.distinct(1))
  with Some show ?thesis by (simp add: getFailureDef_def registryGet_def)
qed

text \<open>
  C8. The lookup is meant to throw for every identifier that is not a key of the
  registry. The identifier \<open>constructor\<close> is not a key of the registry, yet the
  property read finds \<open>Object.prototype.constructor\<close>, which is truthy, so
  \<open>getFailureDef\<close> returns it instead of throwing. (For identifiers that are keys,
  \<open>getFailureDef_registered\<close> gives the stored definition, the same on every call;
  for all other identifiers outside \<open>Object.prototype\<close>, \<open>getFailureDef_unknown\<close>
  gives the throw.)
\<close>

theorem getFailureDef_inherited_key:
  "''constructor'' \<notin> fst ` set FAILURE_REGISTRY
   \<and> getFailureDef ''constructor'' = Inr (Inherited ''constructor'')"
  by (simp add: getFailureDef_def registryGet_def FAILURE_REGISTRY_def RULE_IDS
        objectPrototypeKeys_def)

subsection \<open>Final evaluator\<close>

lemma getScoreCap_nonneg: "0 \<le> getScoreCap l"
  by (simp add: getScoreCap_def split: option.splits)

lemma getScoreCap_Ints: "getScoreCap l \<in> \<int>"
  by (simp add: getScoreCap_def split: option.splits)

lemma totalScore_evaluateFinal:
  "totalScore (evaluateFinal st rs md) =
     max 0 (min (getScoreCap (failureLayer (evaluateFinal st rs md)))
       (Math_round
          ((case rs of
              None \<Rightarrow> 0.6 * completeness st + 0.3 * structureScore st + 0.1 * survivability st
            | Some r \<Rightarrow> 0.4 * completeness st + 0.2 * structureScore st
                         + 0.1 * survivability st + 0.3 * r) * 100
           * DIFFICULTY_WEIGHTS (case difficulty md of None \<Rightarrow> M | Some d \<Rightarrow> d)
           - penaltyOf (case md_failureAnnotations md of None \<Rightarrow> [] | Some a \<Rightarrow> a))))"
  by (simp add: evaluateFinal_def Let_def split: prod.splits)

text \<open>
  The head of the sorted candidate list has the highest priority, and the stable
  sort keeps the first-seen candidate in front among equal priorities.
\<close>

lemma sortByPriorityDesc_hd:
  assumes "sortByPriorityDesc xs = w # rest" and "a \<in> set xs"
  shows "getPriority (layerName (layer a)) \<le> getPriority (layerName (layer w))"
proof -
  let ?f = "\<lambda>a. - getPriority (layerName (layer a))"
  have "sorted (map ?f (sort_key ?f xs))" by (rule sorted_sort_key)
  with assms(1) have "sorted (map ?f (w # rest))" by (simp add: sortByPriorityDesc_def)
  moreover have "a \<in> set (w # rest)"
    using assms by (metis set_sort sortByPriorityDesc_def)
  ultimately show ?thesis by auto
qed

lemma getPriority_layer:
  "getPriority (layerName l) =
     (case l of L5_BrowserRuntime \<Rightarrow> 5 | L4_Parse \<Rightarrow> 4 | L3_StaticValidation \<Rightarrow> 3
              | L2_CodeQuality \<Rightarrow> 2 | L1_Model \<Rightarrow> 1 | L1_Warnings \<Rightarrow> 1)"
  by (cases l) (simp_all add: getPriority_def)

lemma getScoreCap_layer: "getScoreCap (Some (layerName l)) = layerCap (Some l)"
  by (cases l) (simp_all add: getScoreCap_def layerCap_def)

lemma failureCandidates_failing: "failureCandidates anns = filter failing anns"
proof -
  have "failing = (\<lambda>a. severity a = Critical \<or> severity a = Error)"
    by (rule ext) (simp add: failing_def)
  then show ?thesis by (simp add: failureCandidates_def)
qed

lemma sort_key_all_equal:
  assumes "\<forall>x \<in> set xs. f x = k"
  shows "sort_key f xs = xs"
proof -
  have "filter (\<lambda>y. f y = k) (sort_key f xs) = filter (\<lambda>y. f y = k) xs"
    by (rule sort_key_stable)
  moreover have "filter (\<lambda>y. f y = k) (sort_key f xs) = sort_key f xs"
    using assms by (simp add: filter_id_conv)
  moreover have "filter (\<lambda>y. f y = k) xs = xs"
    using assms by (simp add: filter_id_conv)
  ultimately show ?thesis by simp
qed

lemma sortByPriorityDesc_head_layer:
  assumes ne: "xs \<noteq> []"
  shows "\<exists>w rest. sortByPriorityDesc xs = w # rest \<and>
     layer w =
       (if list_ex (\<lambda>a. layer a = L5_BrowserRuntime) xs then L5_BrowserRuntime
        else if list_ex (\<lambda>a. layer a = L4_Parse) xs then L4_Parse
        else if list_ex (\<lambda>a. layer a = L3_StaticValidation) xs then L3_StaticValidation
        else if list_ex (\<lambda>a. layer a = L2_CodeQuality) xs then L2_CodeQuality
        else layer (hd xs))"
proof -
  from ne have "sortByPriorityDesc xs \<noteq> []"
    by (metis set_sort sortByPriorityDesc_def set_empty)
  then obtain w rest where s: "sortByPriorityDesc xs = w # rest"
    by (cases "sortByPriorityDesc xs") auto
  then have w: "w \<in> set xs"
    by (metis set_sort sortByPriorityDesc_def list.set_intros(1))
  have top: "\<And>a. a \<in> set xs \<Longrightarrow>
               getPriority (layerName (layer a)) \<le> getPriority (layerName (layer w))"
    using sortByPriorityDesc_hd [OF s] .
  have "layer w =
       (if list_ex (\<lambda>a. layer a = L5_BrowserRuntime) xs then L5_BrowserRuntime
        else if list_ex (\<lambda>a. layer a = L4_Parse) xs then L4_Parse
        else if list_ex (\<lambda>a. layer a = L3_StaticValidation) xs then L3_StaticValidation
        else if list_ex (\<lambda>a. layer a = L2_CodeQuality) xs then L2_CodeQuality
        else layer (hd xs))"
  proof (cases "\<exists>a \<in> set xs. layer a \<noteq> L1_Model \<and> layer a \<noteq> L1_Warnings")
    case True
    then obtain a where a: "a \<in> set xs" "layer a \<noteq> L1_Model" "layer a \<noteq> L1_Warnings" by blast
    have no: "\<And>l. getPriority (layerName (layer w)) < getPriority (layerName l)
                 \<Longrightarrow> \<not> list_ex (\<lambda>a. layer a = l) xs"
    proof
      fix l
      assume lt: "getPriority (layerName (layer w)) < getPriority (layerName l)"
        and ex: "list_ex (\<lambda>a. layer a = l) xs"
      from ex obtain b where "b \<in> set xs" "layer b = l" by (auto simp: list_ex_iff)
      with top [of b] lt show False by (simp del: layerName.simps)
    qed
    have here: "list_ex (\<lambda>a. layer a = layer w) xs"
      using w by (auto simp: list_ex_iff)
    show ?thesis
    proof (cases "layer w")
      case L5_BrowserRuntime
      with here show ?thesis by simp
    next
      case L4_Parse
      with here no [of L5_BrowserRuntime] show ?thesis by (simp add: getPriority_layer del: layerName.simps)
    next
      case L3_StaticValidation
      with here no [of L5_BrowserRuntime] no [of L4_Parse] show ?thesis
        by (simp add: getPriority_layer del: layerName.simps)
    next
      case L2_CodeQuality
      with here no [of L5_BrowserRuntime] no [of L4_Parse] no [of L3_StaticValidation]
      show ?thesis by (simp add: getPriority_layer del: layerName.simps)
    next
      case L1_Model
      with top [OF a(1)] a show ?thesis
        by (cases "layer a") (simp_all add: getPriority_layer del: layerName.simps)
    next
      case L1_Warnings
      with top [OF a(1)] a show ?thesis
        by (cases "layer a") (simp_all add: getPriority_layer del: layerName.simps)
    qed
  next
    case False
    then have all1: "\<forall>a \<in> set xs. - getPriority (layerName (layer a)) = - 1"
      by (auto simp: getPriority_layer simp del: layerName.simps split: FailureLayer.splits)
    then have "sortByPriorityDesc xs = xs"
      unfolding sortByPriorityDesc_def by (rule sort_key_all_equal)
    with s ne have "w = hd xs" by simp
    moreover from False have "\<not> list_ex (\<lambda>a. layer a = L5_BrowserRuntime) xs"
      "\<not> list_ex (\<lambda>a. layer a = L4_Parse) xs"
      "\<not> list_ex (\<lambda>a. layer a = L3_StaticValidation) xs"
      "\<not> list_ex (\<lambda>a. layer a = L2_CodeQuality) xs"
      by (auto simp: list_ex_iff)
    ultimately show ?thesis by simp
  qed
  with s show ?thesis by blast
qed

lemma failureLayer_evaluateFinal:
  "failureLayer (evaluateFinal st rs md) = map_option layerName (dominantLayer md)"
proof (cases "filter failing (annotationsOf md)")
  case Nil
  then have "sortByPriorityDesc (failureCandidates (annotationsOf md)) = []"
    by (simp add: failureCandidates_failing sortByPriorityDesc_def)
  with Nil show ?thesis
    by (simp add: evaluateFinal_def dominantLayer_def Let_def annotationsOf_def [symmetric])
next
  case (Cons a rest)
  then have ne: "filter failing (annotationsOf md) \<noteq> []" by simp
  from sortByPriorityDesc_head_layer [OF ne] obtain w r where
    s: "sortByPriorityDesc (filter failing (annotationsOf md)) = w # r"
    and l: "layer w =
       (if list_ex (\<lambda>a. layer a = L5_BrowserRuntime) (filter failing (annotationsOf md))
        then L5_BrowserRuntime
        else if list_ex (\<lambda>a. layer a = L4_Parse) (filter failing (annotationsOf md)) then L4_Parse
        else if list_ex (\<lambda>a. layer a = L3_StaticValidation) (filter failing (annotationsOf md))
        then L3_StaticValidation
        else if list_ex (\<lambda>a. layer a = L2_CodeQuality) (filter failing (annotationsOf md))
        then L2_CodeQuality
        else layer (hd (filter failing (annotationsOf md))))"
    by blast
  have fl: "failureLayer (evaluateFinal st rs md) = Some (layerName (layer w))"
    using s
    by (simp add: evaluateFinal_def Let_def annotationsOf_def [symmetric]
          failureCandidates_failing)
  have dl: "dominantLayer md = Some (layer w)"
    unfolding l using Cons by (simp add: dominantLayer_def Let_def)
  show ?thesis by (simp add: fl dl)
qed


lemma getScoreCap_dominant:
  "getScoreCap (map_option layerName l) = layerCap l"
  by (cases l) (simp_all add: getScoreCap_layer del: layerName.simps, simp add: getScoreCap_def layerCap_def)

lemma layerCap_dominant_le:
  assumes "a \<in> set (annotationsOf md)" and "failing a"
  shows "layerCap (dominantLayer md) \<le> layerCap (Some (layer a))"
proof -
  from assms have mem: "a \<in> set (filter failing (annotationsOf md))" by simp
  from assms have ne: "filter failing (annotationsOf md) \<noteq> []"
    by (auto simp: filter_empty_conv)
  then obtain b rest where c: "filter failing (annotationsOf md) = b # rest"
    by (cases "filter failing (annotationsOf md)") auto
  from mem have here: "list_ex (\<lambda>x. layer x = layer a) (filter failing (annotationsOf md))"
    by (auto simp: list_ex_iff)
  show ?thesis
    using here c
    by (cases "layer a"; cases "layer b")
       (simp_all add: dominantLayer_def layerCap_def Let_def)
qed

text \<open>
  C1. For every sub-score breakdown, runtime score and metadata (annotation list,
  difficulty, parse status), the total score returned by the final evaluator is an
  integer between 0 and the cap of the dominant failure layer, and the layer the
  evaluator reports is that dominant layer: the highest layer among the annotations
  of severity critical or error. So every critical or error annotation caps the
  score by the cap of its own layer. The cap is 30 for L5, 50 for L4, 70 for L3,
  85 for L2 and 100 when there is no failure layer, and it does not decrease as the
  layer becomes less severe.
\<close>

theorem evaluateFinal_score_within_cap:
  "totalScore (evaluateFinal st rs md) \<in> \<int>
   \<and> 0 \<le> totalScore (evaluateFinal st rs md)
   \<and> failureLayer (evaluateFinal st rs md) = map_option layerName (dominantLayer md)
   \<and> totalScore (evaluateFinal st rs md) \<le> layerCap (dominantLayer md)
   \<and> (\<forall>a \<in> set (annotationsOf md).
         failing a \<longrightarrow> totalScore (evaluateFinal st rs md) \<le> layerCap (Some (layer a)))
   \<and> layerCap (Some L5_BrowserRuntime) = 30
   \<and> layerCap (Some L4_Parse) = 50
   \<and> layerCap (Some L3_StaticValidation) = 70
   \<and> layerCap (Some L2_CodeQuality) = 85
   \<and> layerCap None = 100
   \<and> totalScore (evaluateFinal st rs md) \<le> getScoreCap (failureLayer (evaluateFinal st rs md))
   \<and> getScoreCap (Some (layerName L5_BrowserRuntime)) = 30
   \<and> getScoreCap (Some (layerName L4_Parse)) = 50
   \<and> getScoreCap (Some (layerName L3_StaticValidation)) = 70
   \<and> getScoreCap (Some (layerName L2_CodeQuality)) = 85
   \<and> getScoreCap None = 100
   \<and> getScoreCap (Some (layerName L5_BrowserRuntime)) \<le> getScoreCap (Some (layerName L4_Parse))
   \<and> getScoreCap (Some (layerName L4_Parse)) \<le> getScoreCap (Some (layerName L3_StaticValidation))
   \<and> getScoreCap (Some (layerName L3_StaticValidation)) \<le> getScoreCap (Some (layerName L2_CodeQuality))
   \<and> getScoreCap (Some (layerName L2_CodeQuality)) \<le> getScoreCap None"
proof -
  let ?r = "evaluateFinal st rs md"
  have ints: "totalScore ?r \<in> \<int>"
    unfolding totalScore_evaluateFinal Math_round_def
    using getScoreCap_Ints [of "failureLayer ?r"]
    by (simp add: max_def min_def)
  have lo: "0 \<le> totalScore ?r"
    unfolding totalScore_evaluateFinal by simp
  have hi: "totalScore ?r \<le> getScoreCap (failureLayer ?r)"
    unfolding totalScore_evaluateFinal
    using getScoreCap_nonneg [of "failureLayer ?r"] by simp
  have dom: "failureLayer ?r = map_option layerName (dominantLayer md)"
    by (rule failureLayer_evaluateFinal)
  have cap: "totalScore ?r \<le> layerCap (dominantLayer md)"
    using hi by (simp only: dom getScoreCap_dominant)
  have each: "\<forall>a \<in> set (annotationsOf md). failing a \<longrightarrow> totalScore ?r \<le> layerCap (Some (layer a))"
  proof (intro ballI impI)
    fix a assume "a \<in> set (annotationsOf md)" "failing a"
    then have "layerCap (dominantLayer md) \<le> layerCap (Some (layer a))"
      by (rule layerCap_dominant_le)
    with cap show "totalScore ?r \<le> layerCap (Some (layer a))" by simp
  qed
  have caps:
    "getScoreCap (Some (layerName L5_BrowserRuntime)) = 30"
    "getScoreCap (Some (layerName L4_Parse)) = 50"
    "getScoreCap (Some (layerName L3_StaticValidation)) = 70"
    "getScoreCap (Some (layerName L2_CodeQuality)) = 85"
    "getScoreCap None = 100"
    by (simp_all add: getScoreCap_def)
  have lcaps:
    "layerCap (Some L5_BrowserRuntime) = 30"
    "layerCap (Some L4_Parse) = 50"
    "layerCap (Some L3_StaticValidation) = 70"
    "layerCap (Some L2_CodeQuality) = 85"
    "layerCap None = 100"
    by (simp_all add: layerCap_def)
  show ?thesis
    using ints lo hi dom cap each by (simp add: caps lcaps del: layerName.simps)
qed

text \<open>
  C1 at a concrete input: a task with perfect sub-scores, runtime score 1, tier XL,
  one L3 error annotation and one L5 critical annotation. The reported layer is L5
  and the score is at most 30.
\<close>

theorem evaluateFinal_score_within_cap_witness:
  "failureLayer
     (evaluateFinal
        \<lparr>completeness = 1, structureScore = 1, survivability = 1, connectivity = 1,
         failureAnnotations = []\<rparr>
        (Some 1)
        \<lparr>difficulty = Some XL, parseStatus = None,
         md_failureAnnotations =
           Some [brokenLink Error ''link'' None,
                 \<lparr>ruleId = ''runtime/crash'', layer = L5_BrowserRuntime, category = Runtime,
                  severity = Critical, message = ''boom'', timestamp = None, evidence = None\<rparr>]\<rparr>)
     = Some ''L5/BrowserRuntime''
   \<and> totalScore
     (evaluateFinal
        \<lparr>completeness = 1, structureScore = 1, survivability = 1, connectivity = 1,
         failureAnnotations = []\<rparr>
        (Some 1)
        \<lparr>difficulty = Some XL, parseStatus = None,
         md_failureAnnotations =
           Some [brokenLink Error ''link'' None,
                 \<lparr>ruleId = ''runtime/crash'', layer = L5_BrowserRuntime, category = Runtime,
                  severity = Critical, message = ''boom'', timestamp = None, evidence = None\<rparr>]\<rparr>)
     \<le> 30"
  using evaluateFinal_score_within_cap
     [of "\<lparr>completeness = 1, structureScore = 1, survivability = 1, connectivity = 1,
         failureAnnotations = []\<rparr>"
        "Some 1"
        "\<lparr>difficulty = Some XL, parseStatus = None,
         md_failureAnnotations =
           Some [brokenLink Error ''link'' None,
                 \<lparr>ruleId = ''runtime/crash'', layer = L5_BrowserRuntime, category = Runtime,
                  severity = Critical, message = ''boom'', timestamp = None, evidence = None\<rparr>]\<rparr>"]
  by (simp add: dominantLayer_def annotationsOf_def failing_def layerCap_def brokenLink_def)

lemma startsWith_layer:
  "startsWith (layerName l) ''L5'' = (l = L5_BrowserRuntime)"
  "startsWith (layerName l) ''L4'' = (l = L4_Parse)"
  "startsWith (layerName l) ''L3'' = (l = L3_StaticValidation)"
  "startsWith (layerName l) ''L2'' = (l = L2_CodeQuality)"
  by (cases l; simp)+

lemma penaltyStep_eq:
  "penaltyStep p a =
     p + (if layer a = L5_BrowserRuntime then 15
          else if layer a = L4_Parse then 20
          else if layer a = L2_CodeQuality \<and> severity a = Error then 5
          else if layer a = L2_CodeQuality \<and> severity a = Warning then 2
          else 0)"
  by (cases "layer a"; cases "severity a"; simp add: penaltyStep_def Let_def)

lemma penaltySum_Cons: "penaltyStep p a + penaltySum anns = p + penaltySum (a # anns)"
  by (simp add: penaltyStep_eq penaltySum_def)

lemma foldl_penaltyStep: "foldl penaltyStep p anns = p + penaltySum anns"
proof (induction anns arbitrary: p)
  case Nil
  show ?case by (simp add: penaltySum_def)
next
  case (Cons a anns)
  have "foldl penaltyStep p (a # anns) = foldl penaltyStep (penaltyStep p a) anns"
    by (simp only: foldl_Cons)
  also have "\<dots> = penaltyStep p a + penaltySum anns"
    by (rule Cons.IH)
  also have "\<dots> = p + penaltySum (a # anns)"
    by (rule penaltySum_Cons)
  finally show ?case .
qed

text \<open>
  C5. The penalty the final evaluator subtracts from the weighted score is 15 for
  each L5 annotation, 20 for each L4 annotation, 5 for each L2 annotation of
  severity error and 2 for each L2 annotation of severity warning; annotations of
  layer L3 or L1, and L2 annotations of severity info or critical, add nothing.
  The second conjunct places that penalty in the returned score.
\<close>

theorem evaluateFinal_penalty:
  "penaltyOf anns =
       15 * real (length (filter (\<lambda>a. layer a = L5_BrowserRuntime) anns))
     + 20 * real (length (filter (\<lambda>a. layer a = L4_Parse) anns))
     + 5 * real (length (filter (\<lambda>a. layer a = L2_CodeQuality \<and> severity a = Error) anns))
     + 2 * real (length (filter (\<lambda>a. layer a = L2_CodeQuality \<and> severity a = Warning) anns))
   \<and> totalScore (evaluateFinal st rs (md\<lparr>md_failureAnnotations := Some anns\<rparr>)) =
       max 0 (min (getScoreCap (failureLayer
                     (evaluateFinal st rs (md\<lparr>md_failureAnnotations := Some anns\<rparr>))))
         (Math_round
            ((case rs of
                None \<Rightarrow> 0.6 * completeness st + 0.3 * structureScore st + 0.1 * survivability st
              | Some r \<Rightarrow> 0.4 * completeness st + 0.2 * structureScore st
                           + 0.1 * survivability st + 0.3 * r) * 100
             * DIFFICULTY_WEIGHTS (case difficulty md of None \<Rightarrow> M | Some d \<Rightarrow> d)
             - penaltySum anns)))"
proof -
  have p: "penaltyOf anns = penaltySum anns"
    by (simp only: penaltyOf_def foldl_penaltyStep add_0)
  show ?thesis
    by (simp add: totalScore_evaluateFinal p penaltySum_def)
qed

subsection \<open>Static evaluator\<close>

lemma foldl_add_sum_list: "foldl (\<lambda>acc val. acc + val) (a::real) xs = a + sum_list xs"
  by (induction xs arbitrary: a) simp_all

text \<open>
  C6. The enabled connectivity sub-checks are: file reference alone for XS; file
  reference and script binding for S; those and API schema linkage for M; all four
  for L and XL. The connectivity score is the arithmetic mean of the enabled
  sub-check values; being a function of the size and the four values, it is the same
  for identical inputs.
\<close>

theorem connectivity_tier_gating:
  "enabledComponents XS fr sb api rc = [fr]
   \<and> enabledComponents S fr sb api rc = [fr, sb]
   \<and> enabledComponents M fr sb api rc = [fr, sb, api]
   \<and> enabledComponents L fr sb api rc = [fr, sb, api, rc]
   \<and> enabledComponents XL fr sb api rc = [fr, sb, api, rc]
   \<and> connectivityOf sz fr sb api rc =
       sum_list (enabledComponents sz fr sb api rc)
       / real (length (enabledComponents sz fr sb api rc))"
proof -
  have "length (enabledComponents sz fr sb api rc) > 0"
    by (simp add: enabledComponents_def)
  then have "connectivityOf sz fr sb api rc =
       sum_list (enabledComponents sz fr sb api rc)
       / real (length (enabledComponents sz fr sb api rc))"
    by (simp add: connectivityOf_def Let_def foldl_add_sum_list)
  then show ?thesis by (simp add: enabledComponents_def)
qed

lemma makeFailHelper_BROKEN_LINK:
  "makeFailHelper CONNECTIVITY_BROKEN_LINK msg = Inr (brokenLink Error msg None)"
  by (simp add: makeFailHelper_def getFailureDef_def registryGet_def FAILURE_REGISTRY_def
        RULE_IDS mkDef_def annotate_def brokenLink_def)

lemma getFailureDef_BROKEN_LINK:
  "getFailureDef CONNECTIVITY_BROKEN_LINK =
     Inr (Def (mkDef ''connectivity/link'' L3_StaticValidation Connectivity Error
                 ''File reference or link is broken''))"
  by (simp add: getFailureDef_def registryGet_def FAILURE_REGISTRY_def RULE_IDS)

lemma countTargets_filter:
  "countTargets j ts (c, ms) =
     (c + length (filter (\<lambda>t. includesStr j (toLowerCase t)) ts),
      ms @ filter (\<lambda>t. \<not> includesStr j (toLowerCase t)) ts)"
  by (induction ts arbitrary: c ms) simp_all

lemma length_filter_eq_iff: "length (filter P xs) = length xs \<longleftrightarrow> list_all P xs"
proof (cases "list_all P xs")
  case True
  then have "filter P xs = xs" by (simp add: list_all_iff)
  with True show ?thesis by simp
next
  case False
  then obtain x where "x \<in> set xs" "\<not> P x" by (auto simp: list_all_iff)
  then have "length (filter P xs) < length xs" by (rule length_filter_less)
  with False show ?thesis by simp
qed

lemma mentioned_fun:
  "(\<lambda>t. includesStr (joinedHtmlOf files) (toLowerCase t)) = mentioned files"
  by (rule ext) (simp add: mentioned_def)

lemma length_filter_pos_iff: "0 < length (filter P xs) \<longleftrightarrow> list_ex P xs"
  by (simp add: filter_empty_conv list_ex_iff)

text \<open>
  C7, as amended. The file-reference sub-check returns
  \<^item> 0 with an error annotation when there is no markup file;
  \<^item> otherwise 1 when the markup text mentions (case-insensitively) every required
    non-markup path, in particular when there is none;
  \<^item> otherwise 0.5 with an error annotation when it mentions some of them;
  \<^item> otherwise (it mentions none) 0.5 with a warning annotation when a generic
    link or script marker (\<open><script\<close>, \<open><link\<close>, \<open>href=\<close>, \<open>src=\<close>) occurs;
  \<^item> otherwise 0 with an error annotation.
\<close>

theorem evaluateFileReference_cases:
  "evaluateFileReference files required anns =
     (if htmlFilesOf files = [] then
        Inr (0, anns @ [brokenLink Error ''No HTML files found to reference content'' None])
      else if list_all (mentioned files) (targetFilesOf required) then Inr (1, anns)
      else if list_ex (mentioned files) (targetFilesOf required) then
        Inr (1 / 2, anns @
          [brokenLink Error
             (''Missing references to required files: ''
              @ join '', '' (missingTargetsOf files required))
             (Some (EvMissingFiles (missingTargetsOf files required)))])
      else if genericFallbackOf files then
        Inr (1 / 2, anns @
          [brokenLink Warning
             (''No explicit references to required files found, but generic links exist. Missing: ''
              @ join '', '' (missingTargetsOf files required))
             None])
      else
        Inr (0, anns @
          [brokenLink Error
             (''Missing references to required files: ''
              @ join '', '' (missingTargetsOf files required))
             (Some (EvMissingFiles (missingTargetsOf files required)))]))"
proof (cases "htmlFilesOf files = []")
  case True
  then show ?thesis
    by (simp add: evaluateFileReference_def htmlFilesOf_def makeFailHelper_BROKEN_LINK bindE_def)
next
  case html: False
  let ?ts = "targetFilesOf required"
  let ?found = "length (filter (mentioned files) ?ts)"
  have ct: "countTargets (joinedHtmlOf files) ?ts (0, []) =
              (?found, missingTargetsOf files required)"
    by (simp add: countTargets_filter missingTargetsOf_def mentioned_fun flip: mentioned_def)
  show ?thesis
  proof (cases "list_all (mentioned files) ?ts")
    case True
    then have "?found = length ?ts" by (simp add: length_filter_eq_iff)
    with html ct show ?thesis
      using True
      by (simp add: evaluateFileReference_def Let_def htmlFilesOf_def [symmetric]
            targetFilesOf_def [symmetric] joinedHtmlOf_def [symmetric])
  next
    case notall: False
    then have ne: "?found \<noteq> length ?ts" by (simp add: length_filter_eq_iff)
    from notall have nonempty: "?ts \<noteq> []" by auto
    show ?thesis
    proof (cases "list_ex (mentioned files) ?ts")
      case True
      then have "0 < ?found" by (simp only: length_filter_pos_iff)
      with html ct ne nonempty notall True show ?thesis
        by (simp add: evaluateFileReference_def Let_def htmlFilesOf_def [symmetric]
              targetFilesOf_def [symmetric] joinedHtmlOf_def [symmetric]
              makeFailHelper_BROKEN_LINK bindE_def brokenLink_def)
    next
      case False
      then have "?found = 0" using length_filter_pos_iff [of "mentioned files" ?ts] by simp
      with html ct ne nonempty notall False show ?thesis
        by (simp add: evaluateFileReference_def Let_def htmlFilesOf_def [symmetric]
              targetFilesOf_def [symmetric] joinedHtmlOf_def [symmetric]
              genericFallbackOf_def [symmetric]
              makeFailHelper_BROKEN_LINK getFailureDef_BROKEN_LINK bindE_def brokenLink_def
              annotate_def mkDef_def)
    qed
  qed
qed


lemmas fileRef_eval =
  evaluateFileReference_def htmlFilesOf_def joinedHtmlOf_def mentioned_def targetFilesOf_def
  missingTargetsOf_def genericFallbackOf_def brokenLink_def fileContent_def endsWith_def
  toLowerCase_def lowerChar_def makeFailHelper_def getFailureDef_def registryGet_def
  FAILURE_REGISTRY_def RULE_IDS mkDef_def annotate_def bindE_def Let_def

text \<open>
  C7 as stated fails twice. With no required path mentioned but a script tag present
  the result is 0.5 with a warning, not 0 with an error; with one of two required
  paths mentioned and a script tag present the annotation is an error, not a warning.
\<close>

theorem evaluateFileReference_counterexample:
  "\<not> mentioned [(''index.html'', ''<script src=x></script>'')] ''main.js''
   \<and> evaluateFileReference [(''index.html'', ''<script src=x></script>'')]
         [''index.html'', ''main.js''] []
       = Inr (1 / 2,
           [brokenLink Warning
              ''No explicit references to required files found, but generic links exist. Missing: main.js''
              None])
   \<and> mentioned [(''index.html'', ''<script src=a.js></script>'')] ''a.js''
   \<and> \<not> mentioned [(''index.html'', ''<script src=a.js></script>'')] ''b.css''
   \<and> genericFallbackOf [(''index.html'', ''<script src=a.js></script>'')]
   \<and> evaluateFileReference [(''index.html'', ''<script src=a.js></script>'')]
         [''index.html'', ''a.js'', ''b.css''] []
       = Inr (1 / 2,
           [brokenLink Error ''Missing references to required files: b.css''
              (Some (EvMissingFiles [''b.css'']))])"
  by (simp add: fileRef_eval)

text \<open>The amended C7 at a concrete file map: no path mentioned, generic link present.\<close>

theorem evaluateFileReference_cases_witness:
  "evaluateFileReference [(''index.html'', ''<a href=x>''), (''app.js'', ''run()'')]
     [''index.html'', ''app.js''] []
   = Inr (1 / 2,
       [brokenLink Warning
          ''No explicit references to required files found, but generic links exist. Missing: app.js''
          None])"
  using evaluateFileReference_cases
          [of "[(''index.html'', ''<a href=x>''), (''app.js'', ''run()'')]"
              "[''index.html'', ''app.js'']" "[]"]
  by (simp add: htmlFilesOf_def joinedHtmlOf_def mentioned_def targetFilesOf_def
        missingTargetsOf_def genericFallbackOf_def fileContent_def endsWith_def
        toLowerCase_def lowerChar_def)

subsection \<open>Runtime evaluator\<close>

lemma makeFail_registered:
  assumes "(rid, d) \<in> set FAILURE_REGISTRY"
  shows "makeFail rid msg ts ev = Inr ((annotate d msg)\<lparr>timestamp := ts, evidence := ev\<rparr>)"
  using getFailureDef_registered [OF assms]
  by (simp add: makeFail_def makeFailHelper_def bindE_def)

lemma registry_members:
  "(RUNTIME_CRASH, mkDef RUNTIME_CRASH L5_BrowserRuntime Runtime Critical
       ''Browser page crashed or encountered a fatal error'') \<in> set FAILURE_REGISTRY"
  "(RUNTIME_CONSOLE_ERROR, mkDef RUNTIME_CONSOLE_ERROR L5_BrowserRuntime Runtime Error
       ''Console error detected'') \<in> set FAILURE_REGISTRY"
  "(RUNTIME_NETWORK_FAIL, mkDef RUNTIME_NETWORK_FAIL L5_BrowserRuntime Runtime Error
       ''Critical network resource failed to load'') \<in> set FAILURE_REGISTRY"
  "(RUNTIME_MANIFEST_MISMATCH, mkDef RUNTIME_MANIFEST_MISMATCH L5_BrowserRuntime Runtime Error
       ''Runtime artifacts do not match sandbox manifest'') \<in> set FAILURE_REGISTRY"
  "(RUNTIME_EXTERNAL_ACCESS, mkDef RUNTIME_EXTERNAL_ACCESS L1_Warnings Runtime Warning
       ''External resource accessed'') \<in> set FAILURE_REGISTRY"
  by (simp_all add: FAILURE_REGISTRY_def)

lemmas makeFail_runtime =
  registry_members [THEN makeFail_registered]

lemmas getFailureDef_runtime =
  registry_members [THEN getFailureDef_registered, THEN conjunct1]

lemma classifyError_ok:
  "\<exists>rw' an'. classifyError e (res, rws, anns)
       = Inr (res @ (if isFatal e then [e] else []), rw', an')
     \<and> set anns \<subseteq> set an'"
  by (auto simp: classifyError_def isFatal_def criticalResource_def bindE_def
        makeFail_runtime getFailureDef_runtime)

lemma foldE_classifyError:
  "\<exists>rw' an'. foldE classifyError errs (res, rws, anns)
       = Inr (res @ filter isFatal errs, rw', an')
     \<and> set anns \<subseteq> set an'"
proof (induction errs arbitrary: res rws anns)
  case Nil
  show ?case by simp
next
  case (Cons e errs)
  obtain rw1 an1 where
    step: "classifyError e (res, rws, anns) = Inr (res @ (if isFatal e then [e] else []), rw1, an1)"
    and sub1: "set anns \<subseteq> set an1"
    using classifyError_ok by blast
  obtain rw2 an2 where
    rest: "foldE classifyError errs (res @ (if isFatal e then [e] else []), rw1, an1)
             = Inr ((res @ (if isFatal e then [e] else [])) @ filter isFatal errs, rw2, an2)"
    and sub2: "set an1 \<subseteq> set an2"
    using Cons.IH by blast
  from step rest sub1 sub2 show ?case by auto
qed

lemma auditAccess_ok:
  "\<exists>an'. auditAccess ps a anns = Inr an' \<and> set anns \<subseteq> set an'"
  by (auto simp: auditAccess_def Let_def bindE_def makeFail_runtime)

lemma foldE_auditAccess:
  "\<exists>an'. foldE (auditAccess ps) as anns = Inr an' \<and> set anns \<subseteq> set an'"
proof (induction as arbitrary: anns)
  case Nil
  show ?case by simp
next
  case (Cons a as)
  obtain an1 where step: "auditAccess ps a anns = Inr an1" and sub1: "set anns \<subseteq> set an1"
    using auditAccess_ok by blast
  obtain an2 where rest: "foldE (auditAccess ps) as an1 = Inr an2" and sub2: "set an1 \<subseteq> set an2"
    using Cons.IH by blast
  from step rest sub1 sub2 show ?case by auto
qed

lemma manifestCheck_ok:
  "\<exists>an. manifestCheck sr = Inr an
     \<and> (manifestMismatch sr \<longrightarrow>
          (\<exists>a \<in> set an. ruleId a = RUNTIME_MANIFEST_MISMATCH \<and> layer a = L5_BrowserRuntime
                         \<and> severity a = Error))"
  by (auto simp: manifestCheck_def manifestMismatch_def bindE_def makeFail_runtime
        annotate_def mkDef_def split: option.splits)

text \<open>
  C4. The runtime evaluator never throws and returns score 0 exactly when the
  sandbox result's success flag is false or some browser error is fatal (a page
  error, a console error, or a network failure on a \<open>.js\<close>/\<open>.html\<close> resource, which the
  code recognises by the URL ending in, or the message mentioning, \<open>.js\<close> or
  \<open>.html\<close>); otherwise it returns 1. The fatal errors are exactly what it records
  in \<open>runtimeErrors\<close>. A manifest mismatch adds an L5 manifest-mismatch annotation and
  does not enter the score.
\<close>

theorem evaluateRuntime_score:
  "\<exists>ev sr'. evaluateRuntime sr = Inr (ev, sr')
     \<and> score ev = (if \<not> success sr \<or> list_ex isFatal (browserErrorsOf sr) then 0 else 1)
     \<and> runtimeErrors sr' = Some (filter isFatal (browserErrorsOf sr))
     \<and> (manifestMismatch sr \<longrightarrow>
          (\<exists>a \<in> set (re_failureAnnotations ev).
             ruleId a = RUNTIME_MANIFEST_MISMATCH \<and> layer a = L5_BrowserRuntime))"
proof -
  obtain an0 where
    m: "manifestCheck sr = Inr an0" and
    mm: "manifestMismatch sr \<longrightarrow>
          (\<exists>a \<in> set an0. ruleId a = RUNTIME_MANIFEST_MISMATCH \<and> layer a = L5_BrowserRuntime
                         \<and> severity a = Error)"
    using manifestCheck_ok by blast
  let ?ps = "case manifest sr of None \<Rightarrow> [] | Some m \<Rightarrow> filesMounted m"
  obtain an1 where
    a: "(case externalAccess sr of None \<Rightarrow> Inr an0
         | Some accesses \<Rightarrow> foldE (auditAccess ?ps) accesses an0) = Inr an1"
    and sub1: "set an0 \<subseteq> set an1"
  proof (cases "externalAccess sr")
    case None
    then show ?thesis using that by simp
  next
    case (Some accesses)
    then show ?thesis using that foldE_auditAccess [of ?ps accesses an0] by auto
  qed
  obtain rw an2 where
    c: "foldE classifyError (browserErrorsOf sr) ([], [], an1)
          = Inr ([] @ filter isFatal (browserErrorsOf sr), rw, an2)"
    and sub2: "set an1 \<subseteq> set an2"
    using foldE_classifyError by blast
  have fatal: "(0 < length (filter isFatal (browserErrorsOf sr)))
                 = list_ex isFatal (browserErrorsOf sr)"
    by (simp add: filter_empty_conv list_ex_iff)
  have crash: "makeFail RUNTIME_CRASH ''Sandbox Execution Failed (Infrastructure/Timeout)'' None None
     = Inr ((annotate (mkDef RUNTIME_CRASH L5_BrowserRuntime Runtime Critical
       ''Browser page crashed or encountered a fatal error'') ''Sandbox Execution Failed (Infrastructure/Timeout)'')\<lparr>timestamp := None, evidence := None\<rparr>)"
    by (rule makeFail_runtime)
  from mm sub1 sub2 have keep:
    "manifestMismatch sr \<longrightarrow>
       (\<exists>a \<in> set an2. ruleId a = RUNTIME_MANIFEST_MISMATCH \<and> layer a = L5_BrowserRuntime)"
    by blast
  show ?thesis
    using m a c keep fatal
    by (auto simp: evaluateRuntime_def bindE_def Let_def browserErrorsOf_def [symmetric] crash)
qed


text \<open>
  C4 at a concrete sandbox result: the manifest declares \<open>index.js\<close>, only
  \<open>index.html\<close> is mounted, the run succeeded without browser errors. The score is 1
  and the manifest-mismatch annotation is present.
\<close>

theorem evaluateRuntime_score_witness:
  "manifestMismatch
     \<lparr>manifest = Some \<lparr>entry = ''index.js'', filesMounted = [''index.html''],
                         fileHashes = [], generatedAt = []\<rparr>,
      externalAccess = None, logs = [], success = True, runtimeErrors = None,
      runtimeWarnings = None, browserErrors = Some [], browserLogs = Some []\<rparr>
   \<and> (\<exists>ev sr'.
        evaluateRuntime
          \<lparr>manifest = Some \<lparr>entry = ''index.js'', filesMounted = [''index.html''],
                              fileHashes = [], generatedAt = []\<rparr>,
           externalAccess = None, logs = [], success = True, runtimeErrors = None,
           runtimeWarnings = None, browserErrors = Some [], browserLogs = Some []\<rparr>
          = Inr (ev, sr')
        \<and> score ev = 1
        \<and> (\<exists>a \<in> set (re_failureAnnotations ev).
              ruleId a = RUNTIME_MANIFEST_MISMATCH \<and> layer a = L5_BrowserRuntime))"
  using evaluateRuntime_score
          [of "\<lparr>manifest = Some \<lparr>entry = ''index.js'', filesMounted = [''index.html''],
                                   fileHashes = [], generatedAt = []\<rparr>,
                externalAccess = None, logs = [], success = True, runtimeErrors = None,
                runtimeWarnings = None, browserErrors = Some [], browserLogs = Some []\<rparr>"]
  by (simp add: manifestMismatch_def browserErrorsOf_def) blast

subsection \<open>Parsing gate\<close>

lemma validTreeEntries_blank_path:
  "JObj kvs \<in> set fs \<Longrightarrow> map_of kvs ''path'' = Some (JStr p) \<Longrightarrow> trim p = []
   \<Longrightarrow> \<not> validTreeEntries fs"
  by (induction fs) auto

text \<open>
  The part of the gate that is there: a tree with an empty or blank path is rejected
  wholesale.
\<close>

lemma parseModelOutput_rejects_blank_path:
  "JObj kvs \<in> set fs \<Longrightarrow> map_of kvs ''path'' = Some (JStr p) \<Longrightarrow> trim p = []
   \<Longrightarrow> parseModelOutput (JObj [(''files'', JArr fs)]) artifacts = None"
  by (simp add: parseModelOutput_def validateTreeSpec_def treeFiles_def
        validTreeEntries_blank_path)

text \<open>
  C9. The gate is to reject every bundle whose tree has an empty, absolute or
  parent-traversing path. \<open>validateTreeSpec\<close> only checks that each path is a
  non-blank string, so a tree whose path is \<open>../../outside.txt\<close>, and one whose path
  is \<open>/etc/passwd\<close>, pass the gate and come back as a combined output. (The tree
  validator of the tree phase, \<open>validateTree\<close> with \<open>isValidPath\<close>, rejects both.)
\<close>

theorem parseModelOutput_accepts_unsafe_paths:
  "parseModelOutput
     (JObj [(''files'', JArr [JObj [(''path'', JStr ''../../outside.txt''), (''type'', JStr ''text'')]])])
     (JObj [(''files'', JObj [(''index.html'', JStr ''<!DOCTYPE html>'')])])
   = Some \<lparr>co_tree =
       JObj [(''files'', JArr [JObj [(''path'', JStr ''../../outside.txt''), (''type'', JStr ''text'')]])],
      co_artifacts = JObj [(''files'', JObj [(''index.html'', JStr ''<!DOCTYPE html>'')])]\<rparr>
   \<and> parseModelOutput
     (JObj [(''files'', JArr [JObj [(''path'', JStr ''/etc/passwd''), (''type'', JStr ''text'')]])])
     (JObj [(''files'', JObj [(''index.html'', JStr ''<!DOCTYPE html>'')])])
   = Some \<lparr>co_tree =
       JObj [(''files'', JArr [JObj [(''path'', JStr ''/etc/passwd''), (''type'', JStr ''text'')]])],
      co_artifacts = JObj [(''files'', JObj [(''index.html'', JStr ''<!DOCTYPE html>'')])]\<rparr>"
  by (simp add: parseModelOutput_def validateTreeSpec_def validateArtifactsSpec_def treeFiles_def
        trim_def isSpace_def Let_def)

subsection \<open>Sandbox runner\<close>

text \<open>
  Where the runner does resolve: once the scratch directory exists and every child
  process it spawns closes or emits \<open>error\<close>, the promise resolves with one result
  object, whatever the writes, the build, the browser run and the process run do.
\<close>

lemma runCommand_resolves:
  "procEnd (spawn env c) = Closes code \<or> procEnd (spawn env c) = Errors m
   \<Longrightarrow> \<exists>r. runCommand env c t lg = Resolved r"
  by (auto simp: runCommand_def Let_def)

lemma runRuntime_resolves:
  assumes "\<And>c. \<exists>code m. procEnd (spawn env c) = Closes code \<or> procEnd (spawn env c) = Errors m"
  shows "\<exists>r. runRuntime env lg rt ep mf = Resolved r"
proof -
  have cmd: "\<And>c t l. \<exists>l1 code. runCommand env c t l = Resolved (l1, code)"
    using assms runCommand_resolves by (metis surj_pair)
  show ?thesis
  proof (cases "truthyStr ep \<and> rt \<noteq> Some ''browser'' \<and> rt = Some ''node''")
    case True
    let ?cmd = "''node -r '' @ [CHR 0x22] @ guardPath env @ [CHR 0x22] @ '' '' @ [CHR 0x22]
                  @ (case ep of Some e \<Rightarrow> e | None \<Rightarrow> []) @ [CHR 0x22]"
    obtain l1 code where
      "runCommand env ?cmd 5000
         (lg @ [''[Sandbox] Node Runtime: '' @ (case ep of Some e \<Rightarrow> e | None \<Rightarrow> []),
                ''[Sandbox] Cmd: '' @ ?cmd]) = Resolved (l1, code)"
      using cmd by blast
    with True show ?thesis by (simp add: runRuntime_def Let_def)
  next
    case False
    then show ?thesis
      by (auto simp: runRuntime_def Let_def split: sum.splits)
  qed
qed

lemma runInSandbox_resolves:
  assumes "tmpDirSync env = Inr d"
    and "\<And>c. \<exists>code m. procEnd (spawn env c) = Closes code \<or> procEnd (spawn env c) = Errors m"
  shows "\<exists>r. runInSandbox env a t mf = Resolved r"
proof -
  have cmd: "\<And>c tm l. \<exists>l1 code. runCommand env c tm l = Resolved (l1, code)"
    using assms(2) runCommand_resolves by (metis surj_pair)
  note rr = runRuntime_resolves [OF assms(2)]
  show ?thesis
  proof (cases "writeFiles (writeFile env) (art_files a)")
    case (Some msg)
    with assms(1) show ?thesis by (simp add: runInSandbox_def)
  next
    case None
    let ?b = "case runtimeSpec t of None \<Rightarrow> None | Some r \<Rightarrow> buildCommand r"
    show ?thesis
    proof (cases "truthyStr ?b")
      case False
      with None assms(1) rr show ?thesis by (simp add: runInSandbox_def Let_def)
    next
      case True
      let ?cmd = "case ?b of Some c \<Rightarrow> c | None \<Rightarrow> []"
      obtain l1 code where
        "runCommand env ?cmd 30000 [''[Sandbox] Build: '' @ ?cmd] = Resolved (l1, code)"
        using cmd by blast
      with True None assms(1) rr show ?thesis by (simp add: runInSandbox_def Let_def)
    qed
  qed
qed

text \<open>
  C3. The promise of \<open>runInSandbox\<close> is to resolve on every exit path, internal
  exceptions included. Two paths do not. \<open>tmp.dirSync\<close> is called in the promise
  executor before the \<open>try\<close> block: when it throws, the promise rejects. The
  \<open>async\<close> body is started without a handler: when \<open>spawn\<close> throws inside
  \<open>runCommand\<close> for the build step, the awaited promise rejects, nothing calls
  \<open>resolve\<close>, and the promise never settles.
\<close>

theorem runInSandbox_unsettled_or_rejected:
  "runInSandbox noScratchEnv oneFileArtifacts staticOnlyTask None
     = Rejected ''ENOSPC: no space left on device, mkdir''
   \<and> runInSandbox spawnThrowsEnv oneFileArtifacts buildTask None = Pending"
  by (simp add: runInSandbox_def runCommand_def noScratchEnv_def spawnThrowsEnv_def
        workingEnv_def buildTask_def oneFileArtifacts_def truthyStr_def Let_def)

subsection \<open>Pipeline orchestrator\<close>

lemma callWithTimeout_Rejected:
  "settles c = Rejected e \<Longrightarrow> \<not> isXL \<or> (\<not> deadlinePassed c \<and> \<not> timerFirst c)
   \<Longrightarrow> callWithTimeout isXL c = Rejected e"
  by (auto simp: callWithTimeout_def)

lemma modelFailure_result:
  "\<exists>res. modelFailure ts timedOut phase tree tokens
            = ([FinalEval (if declaresRuntime ts then Some 0 else None)], Resolved res)
     \<and> completeness (md_staticScore (er_metadata res)) = 0
     \<and> totalScore (md_finalResult (er_metadata res)) = 0
     \<and> md_runtimeScore (er_metadata res) = (if declaresRuntime ts then Some 0 else None)
     \<and> runtime (md_finalResult (er_metadata res)) = (if declaresRuntime ts then Some 0 else None)"
  by (simp add: modelFailure_def Let_def evaluateFinal_def emptyMetadata_def
        failureCandidates_def sortByPriorityDesc_def penaltyOf_def getScoreCap_def
        Math_round_def DIFFICULTY_WEIGHTS_def)

lemma runTask_tree_rejected:
  "callWithTimeout (taskSize ts = XL) (treeCall env) = Rejected e
   \<Longrightarrow> runTask env ts = ([], Rejected e)"
  by (simp add: runTask_def)

lemma runTask_tree_failure:
  "callWithTimeout (taskSize ts = XL) (treeCall env) = Resolved r \<Longrightarrow> producedTree env ts = None
   \<Longrightarrow> runTask env ts = modelFailure ts (cr_timeout r) ''Tree'' JNull (tokensOf r)"
  by (auto simp: runTask_def producedTree_def Let_def split: option.splits if_splits)

lemma runTask_files_rejected:
  "producedTree env ts = Some t
   \<Longrightarrow> callWithTimeout (taskSize ts = XL) (filesCall env) = Rejected e
   \<Longrightarrow> runTask env ts = ([], Rejected e)"
  by (auto simp: runTask_def producedTree_def Let_def
           split: option.splits if_splits outcome.splits)

lemma runTask_files_failure:
  "producedTree env ts = Some t
   \<Longrightarrow> callWithTimeout (taskSize ts = XL) (filesCall env) = Resolved r
   \<Longrightarrow> producedArtifacts env ts = None
   \<Longrightarrow> \<exists>tokens. runTask env ts = modelFailure ts (cr_timeout r) ''Files'' t tokens"
  by (auto simp: runTask_def producedTree_def producedArtifacts_def Let_def
           split: option.splits if_splits outcome.splits)

lemma runTask_graded:
  "producedTree env ts = Some t \<Longrightarrow> producedArtifacts env ts = Some a
   \<Longrightarrow> \<exists>lg tokens. runTask env ts = gradeArtifacts env ts t a lg tokens"
  by (auto simp: runTask_def producedTree_def producedArtifacts_def Let_def
           split: option.splits if_splits outcome.splits) blast


lemma finishTask_result:
  "\<exists>res. finishTask ts trace tree combined artifacts st rs info tokens
            = (trace @ [FinalEval rs], Resolved res)
     \<and> md_runtimeScore (er_metadata res) = rs
     \<and> md_staticScore (er_metadata res) = st
     \<and> runtime (md_finalResult (er_metadata res)) = rs
     \<and> (info = None \<longrightarrow>
          md_finalResult (er_metadata res)
            = evaluateFinal st rs \<lparr>difficulty = Some (taskSize ts), parseStatus = None,
                                    md_failureAnnotations = Some (failureAnnotations st)\<rparr>)"
  by (simp add: finishTask_def Let_def evaluateFinal_def split: prod.splits)

lemma gradeArtifacts_sandbox:
  "SandboxRun \<in> set (fst (gradeArtifacts env ts t a lg tokens))
     \<or> RuntimeEval \<in> set (fst (gradeArtifacts env ts t a lg tokens))
   \<Longrightarrow> (taskSize ts = M \<or> taskSize ts = L \<or> taskSize ts = XL) \<and> parseModelOutput t a \<noteq> None"
  by (auto simp: gradeArtifacts_def finishTask_def Let_def
           split: outcome.splits sum.splits if_splits prod.splits)

lemma gradeArtifacts_light:
  assumes "taskSize ts = XS \<or> taskSize ts = S"
    and "snd (gradeArtifacts env ts t a lg tokens) = Resolved res"
  shows "fst (gradeArtifacts env ts t a lg tokens) = [FinalEval None]
     \<and> md_runtimeScore (er_metadata res) = None
     \<and> md_finalResult (er_metadata res)
          = evaluateFinal (md_staticScore (er_metadata res)) None
              \<lparr>difficulty = Some (taskSize ts), parseStatus = None,
               md_failureAnnotations = Some (failureAnnotations (md_staticScore (er_metadata res)))\<rparr>"
proof -
  let ?valid = "parseModelOutput t a \<noteq> None"
  obtain st arts where
    g: "gradeArtifacts env ts t a lg tokens
          = finishTask ts [] t (parseModelOutput t a) arts st None None tokens"
    using assms
    by (auto simp: gradeArtifacts_def Let_def split: outcome.splits if_splits)
  obtain r where
    f: "finishTask ts [] t (parseModelOutput t a) arts st None None tokens
          = ([] @ [FinalEval None], Resolved r)"
    and r: "md_runtimeScore (er_metadata r) = None" "md_staticScore (er_metadata r) = st"
      "md_finalResult (er_metadata r)
            = evaluateFinal st None \<lparr>difficulty = Some (taskSize ts), parseStatus = None,
                                    md_failureAnnotations = Some (failureAnnotations st)\<rparr>"
    using finishTask_result [of ts "[]" t "parseModelOutput t a" arts st None None tokens]
    by auto
  from g f assms(2) have "res = r" by simp
  with g f r show ?thesis by simp
qed


text \<open>
  What \<open>runTask\<close> does with the outcome of a collaborator call. It has no handler
  around the two calls: a rejection of the tree call, or of the files call after a
  tree was produced (for the XL tier while the deadline has not passed and before
  the timer fires), ends \<open>runTask\<close> in the same rejection. A call that resolves
  without a tree or without artifacts, and an XL deadline that wins, end it in a
  complete result with completeness 0 and total score 0.
\<close>

lemma runTask_generation_outcomes:
  "(settles (treeCall env) = Rejected e
      \<and> (taskSize ts \<noteq> XL \<or> (\<not> deadlinePassed (treeCall env) \<and> \<not> timerFirst (treeCall env)))
      \<longrightarrow> snd (runTask env ts) = Rejected e)
   \<and> (producedTree env ts \<noteq> None \<and> settles (filesCall env) = Rejected e
      \<and> (taskSize ts \<noteq> XL \<or> (\<not> deadlinePassed (filesCall env) \<and> \<not> timerFirst (filesCall env)))
      \<longrightarrow> snd (runTask env ts) = Rejected e)
   \<and> ((\<exists>r. callWithTimeout (taskSize ts = XL) (treeCall env) = Resolved r)
      \<and> producedTree env ts = None
      \<longrightarrow> (\<exists>res. snd (runTask env ts) = Resolved res
             \<and> completeness (md_staticScore (er_metadata res)) = 0
             \<and> totalScore (md_finalResult (er_metadata res)) = 0))
   \<and> (producedTree env ts \<noteq> None
      \<and> (\<exists>r. callWithTimeout (taskSize ts = XL) (filesCall env) = Resolved r)
      \<and> producedArtifacts env ts = None
      \<longrightarrow> (\<exists>res. snd (runTask env ts) = Resolved res
             \<and> completeness (md_staticScore (er_metadata res)) = 0
             \<and> totalScore (md_finalResult (er_metadata res)) = 0))"
proof (intro conjI impI)
  assume "settles (treeCall env) = Rejected e
      \<and> (taskSize ts \<noteq> XL \<or> (\<not> deadlinePassed (treeCall env) \<and> \<not> timerFirst (treeCall env)))"
  then have "callWithTimeout (taskSize ts = XL) (treeCall env) = Rejected e"
    by (intro callWithTimeout_Rejected) auto
  then show "snd (runTask env ts) = Rejected e"
    by (simp add: runTask_tree_rejected)
next
  assume a: "producedTree env ts \<noteq> None \<and> settles (filesCall env) = Rejected e
      \<and> (taskSize ts \<noteq> XL \<or> (\<not> deadlinePassed (filesCall env) \<and> \<not> timerFirst (filesCall env)))"
  then obtain t where t: "producedTree env ts = Some t" by auto
  from a have "callWithTimeout (taskSize ts = XL) (filesCall env) = Rejected e"
    by (intro callWithTimeout_Rejected) auto
  with t show "snd (runTask env ts) = Rejected e"
    by (simp add: runTask_files_rejected)
next
  assume "(\<exists>r. callWithTimeout (taskSize ts = XL) (treeCall env) = Resolved r)
      \<and> producedTree env ts = None"
  then obtain r where "callWithTimeout (taskSize ts = XL) (treeCall env) = Resolved r"
    and "producedTree env ts = None" by auto
  then have "runTask env ts = modelFailure ts (cr_timeout r) ''Tree'' JNull (tokensOf r)"
    by (rule runTask_tree_failure)
  with modelFailure_result [of ts "cr_timeout r" "''Tree''" JNull "tokensOf r"]
  show "\<exists>res. snd (runTask env ts) = Resolved res
             \<and> completeness (md_staticScore (er_metadata res)) = 0
             \<and> totalScore (md_finalResult (er_metadata res)) = 0"
    by auto
next
  assume a: "producedTree env ts \<noteq> None
      \<and> (\<exists>r. callWithTimeout (taskSize ts = XL) (filesCall env) = Resolved r)
      \<and> producedArtifacts env ts = None"
  then obtain t r where "producedTree env ts = Some t"
    and "callWithTimeout (taskSize ts = XL) (filesCall env) = Resolved r"
    and "producedArtifacts env ts = None" by auto
  then obtain tokens where
    "runTask env ts = modelFailure ts (cr_timeout r) ''Files'' t tokens"
    using runTask_files_failure by blast
  with modelFailure_result [of ts "cr_timeout r" "''Files''" t tokens]
  show "\<exists>res. snd (runTask env ts) = Resolved res
             \<and> completeness (md_staticScore (er_metadata res)) = 0
             \<and> totalScore (md_finalResult (er_metadata res)) = 0"
    by auto
qed

lemmas runTask_examples =
  runEnvOf_def callOf_def browserTask_def goodOutput_def emptyOutput_def perfectStatic_def
  workingEnv_def producedTree_def producedArtifacts_def callWithTimeout_def

text \<open>
  C2. \<open>runTask\<close> is to settle with a complete result, with zero completeness,
  whatever the collaborator does, a rejected promise included, and never to reject.
  For an M task whose tree call rejects with \<open>401 Unauthorized\<close>, and for one whose
  files call does, \<open>runTask\<close> rejects with that fault: the calls are awaited without
  a handler, unlike the parsing step of the same function, which catches and
  degrades.
\<close>

theorem runTask_rejects_on_collaborator_fault:
  "snd (runTask (runEnvOf (callOf (Rejected ''401 Unauthorized'')) (callOf (Resolved goodOutput)))
          (browserTask M))
     = Rejected ''401 Unauthorized''
   \<and> snd (runTask (runEnvOf (callOf (Resolved goodOutput)) (callOf (Rejected ''401 Unauthorized'')))
          (browserTask M))
     = Rejected ''401 Unauthorized''"
  by (simp add: runTask_def runTask_examples)

text \<open>C2 at that M task: no result object comes back from the run.\<close>

theorem runTask_rejects_on_collaborator_fault_witness:
  "\<not> (\<exists>res. snd (runTask (runEnvOf (callOf (Rejected ''401 Unauthorized''))
                                (callOf (Resolved goodOutput)))
                      (browserTask M))
              = Resolved res)"
  using runTask_rejects_on_collaborator_fault by simp

text \<open>
  The four outcomes at runs of an S task: the tree call rejects, the files call
  rejects, the tree call returns no tree, the files call returns no artifacts.
\<close>

lemma runTask_generation_outcomes_examples:
  "snd (runTask (runEnvOf (callOf (Rejected ''timeout'')) (callOf (Resolved goodOutput)))
          (browserTask S))
     = Rejected ''timeout''
   \<and> snd (runTask (runEnvOf (callOf (Resolved goodOutput)) (callOf (Rejected ''timeout'')))
          (browserTask S))
     = Rejected ''timeout''
   \<and> (\<exists>res. snd (runTask (runEnvOf (callOf (Resolved emptyOutput)) (callOf (Resolved goodOutput)))
                  (browserTask S))
               = Resolved res
            \<and> completeness (md_staticScore (er_metadata res)) = 0
            \<and> totalScore (md_finalResult (er_metadata res)) = 0)
   \<and> (\<exists>res. snd (runTask (runEnvOf (callOf (Resolved goodOutput)) (callOf (Resolved emptyOutput)))
                  (browserTask S))
               = Resolved res
            \<and> completeness (md_staticScore (er_metadata res)) = 0
            \<and> totalScore (md_finalResult (er_metadata res)) = 0)"
  using
    runTask_generation_outcomes
      [of "runEnvOf (callOf (Rejected ''timeout'')) (callOf (Resolved goodOutput))"
          "''timeout''" "browserTask S"]
    runTask_generation_outcomes
      [of "runEnvOf (callOf (Resolved goodOutput)) (callOf (Rejected ''timeout''))"
          "''timeout''" "browserTask S"]
    runTask_generation_outcomes
      [of "runEnvOf (callOf (Resolved emptyOutput)) (callOf (Resolved goodOutput))"
          "[]" "browserTask S"]
    runTask_generation_outcomes
      [of "runEnvOf (callOf (Resolved goodOutput)) (callOf (Resolved emptyOutput))"
          "[]" "browserTask S"]
  by (simp add: runTask_examples)


text \<open>
  C10, as amended. The sandbox runner and the runtime evaluator are called only for
  tasks of tier M, L or XL whose bundle passed the parsing gate. For an XS or S task
  whose two phases produced a tree and artifacts, the runtime score passed to the
  final evaluator is null and the score is computed with the weights 0.6, 0.3 and
  0.1. When a phase produced nothing (missing output or deadline), for every tier,
  the runtime score passed to the final evaluator is 0 if the task declares a
  runtime entry or a build command, and null otherwise.
\<close>

theorem runTask_runtime_gating:
  "(SandboxRun \<in> set (fst (runTask env ts)) \<or> RuntimeEval \<in> set (fst (runTask env ts))
      \<longrightarrow> (taskSize ts = M \<or> taskSize ts = L \<or> taskSize ts = XL) \<and> gatePassed env ts)
   \<and> ((taskSize ts = XS \<or> taskSize ts = S)
       \<and> producedTree env ts \<noteq> None \<and> producedArtifacts env ts \<noteq> None
       \<and> snd (runTask env ts) = Resolved res
      \<longrightarrow> fst (runTask env ts) = [FinalEval None]
          \<and> md_runtimeScore (er_metadata res) = None
          \<and> totalScore (md_finalResult (er_metadata res)) =
              max 0 (min (getScoreCap (failureLayer (md_finalResult (er_metadata res))))
                (Math_round
                   ((0.6 * completeness (md_staticScore (er_metadata res))
                     + 0.3 * structureScore (md_staticScore (er_metadata res))
                     + 0.1 * survivability (md_staticScore (er_metadata res))) * 100
                    * DIFFICULTY_WEIGHTS (taskSize ts)
                    - penaltyOf (failureAnnotations (md_staticScore (er_metadata res)))))))
   \<and> ((producedTree env ts = None \<or> producedArtifacts env ts = None)
       \<and> snd (runTask env ts) = Resolved res
      \<longrightarrow> fst (runTask env ts) = [FinalEval (if declaresRuntime ts then Some 0 else None)]
          \<and> md_runtimeScore (er_metadata res) = (if declaresRuntime ts then Some 0 else None))"
proof -
  have A: "SandboxRun \<in> set (fst (runTask env ts)) \<or> RuntimeEval \<in> set (fst (runTask env ts))
      \<longrightarrow> (taskSize ts = M \<or> taskSize ts = L \<or> taskSize ts = XL) \<and> gatePassed env ts"
  proof
    assume ev: "SandboxRun \<in> set (fst (runTask env ts)) \<or> RuntimeEval \<in> set (fst (runTask env ts))"
    show "(taskSize ts = M \<or> taskSize ts = L \<or> taskSize ts = XL) \<and> gatePassed env ts"
    proof (cases "producedTree env ts")
      case None
      show ?thesis
      proof (cases "callWithTimeout (taskSize ts = XL) (treeCall env)")
        case (Resolved r)
        with None have "runTask env ts = modelFailure ts (cr_timeout r) ''Tree'' JNull (tokensOf r)"
          by (simp add: runTask_tree_failure)
        with ev show ?thesis by (simp add: modelFailure_def Let_def)
      next
        case (Rejected e)
        with ev show ?thesis by (simp add: runTask_def)
      next
        case Pending
        with ev show ?thesis by (simp add: runTask_def)
      qed
    next
      case (Some t)
      show ?thesis
      proof (cases "producedArtifacts env ts")
        case None
        show ?thesis
        proof (cases "callWithTimeout (taskSize ts = XL) (filesCall env)")
          case (Resolved r)
          with Some None obtain tokens where
            "runTask env ts = modelFailure ts (cr_timeout r) ''Files'' t tokens"
            using runTask_files_failure by blast
          with ev show ?thesis by (simp add: modelFailure_def Let_def)
        next
          case (Rejected e)
          with Some have "runTask env ts = ([], Rejected e)" by (simp add: runTask_files_rejected)
          with ev show ?thesis by simp
        next
          case Pending
          with Some have "runTask env ts = ([], Pending)"
            by (auto simp: runTask_def producedTree_def Let_def
                     split: option.splits if_splits outcome.splits)
          with ev show ?thesis by simp
        qed
      next
        case a: (Some a)
        with Some obtain lg tokens where
          "runTask env ts = gradeArtifacts env ts t a lg tokens"
          using runTask_graded by blast
        with ev gradeArtifacts_sandbox [of env ts t a lg tokens]
        show ?thesis using Some a by (simp add: gatePassed_def)
      qed
    qed
  qed
  have B: "(taskSize ts = XS \<or> taskSize ts = S)
       \<and> producedTree env ts \<noteq> None \<and> producedArtifacts env ts \<noteq> None
       \<and> snd (runTask env ts) = Resolved res
      \<longrightarrow> fst (runTask env ts) = [FinalEval None]
          \<and> md_runtimeScore (er_metadata res) = None
          \<and> totalScore (md_finalResult (er_metadata res)) =
              max 0 (min (getScoreCap (failureLayer (md_finalResult (er_metadata res))))
                (Math_round
                   ((0.6 * completeness (md_staticScore (er_metadata res))
                     + 0.3 * structureScore (md_staticScore (er_metadata res))
                     + 0.1 * survivability (md_staticScore (er_metadata res))) * 100
                    * DIFFICULTY_WEIGHTS (taskSize ts)
                    - penaltyOf (failureAnnotations (md_staticScore (er_metadata res))))))"
  proof (intro impI conjI)
    assume h: "(taskSize ts = XS \<or> taskSize ts = S)
         \<and> producedTree env ts \<noteq> None \<and> producedArtifacts env ts \<noteq> None
         \<and> snd (runTask env ts) = Resolved res"
    then obtain t a where "producedTree env ts = Some t" "producedArtifacts env ts = Some a"
      by auto
    then obtain lg tokens where g: "runTask env ts = gradeArtifacts env ts t a lg tokens"
      using runTask_graded by blast
    from h g have light: "taskSize ts = XS \<or> taskSize ts = S"
      and res: "snd (gradeArtifacts env ts t a lg tokens) = Resolved res" by simp_all
    note l = gradeArtifacts_light [OF light res]
    show "fst (runTask env ts) = [FinalEval None]" using g l by simp
    show "md_runtimeScore (er_metadata res) = None" using l by simp
    show "totalScore (md_finalResult (er_metadata res)) =
                max 0 (min (getScoreCap (failureLayer (md_finalResult (er_metadata res))))
                  (Math_round
                     ((0.6 * completeness (md_staticScore (er_metadata res))
                       + 0.3 * structureScore (md_staticScore (er_metadata res))
                       + 0.1 * survivability (md_staticScore (er_metadata res))) * 100
                      * DIFFICULTY_WEIGHTS (taskSize ts)
                      - penaltyOf (failureAnnotations (md_staticScore (er_metadata res))))))"
      using l by (simp add: totalScore_evaluateFinal)
  qed
  have C: "(producedTree env ts = None \<or> producedArtifacts env ts = None)
       \<and> snd (runTask env ts) = Resolved res
      \<longrightarrow> fst (runTask env ts) = [FinalEval (if declaresRuntime ts then Some 0 else None)]
          \<and> md_runtimeScore (er_metadata res) = (if declaresRuntime ts then Some 0 else None)"
  proof (intro impI conjI)
    assume h: "(producedTree env ts = None \<or> producedArtifacts env ts = None)
         \<and> snd (runTask env ts) = Resolved res"
    have "\<exists>timedOut phase tree tokens. runTask env ts = modelFailure ts timedOut phase tree tokens"
    proof (cases "producedTree env ts")
      case None
      show ?thesis
      proof (cases "callWithTimeout (taskSize ts = XL) (treeCall env)")
        case (Resolved r)
        with None show ?thesis using runTask_tree_failure by blast
      next
        case (Rejected e)
        with h show ?thesis by (simp add: runTask_def)
      next
        case Pending
        with h show ?thesis by (simp add: runTask_def)
      qed
    next
      case (Some t)
      with h have none: "producedArtifacts env ts = None" by simp
      show ?thesis
      proof (cases "callWithTimeout (taskSize ts = XL) (filesCall env)")
        case (Resolved r)
        with Some none show ?thesis using runTask_files_failure by blast
      next
        case (Rejected e)
        with Some have "runTask env ts = ([], Rejected e)" by (simp add: runTask_files_rejected)
        with h show ?thesis by simp
      next
        case Pending
        with Some have "runTask env ts = ([], Pending)"
          by (auto simp: runTask_def producedTree_def Let_def
                   split: option.splits if_splits outcome.splits)
        with h show ?thesis by simp
      qed
    qed
    then obtain timedOut phase tree tokens where
      m: "runTask env ts = modelFailure ts timedOut phase tree tokens" by blast
    from modelFailure_result [of ts timedOut phase tree tokens] m h
    show "fst (runTask env ts) = [FinalEval (if declaresRuntime ts then Some 0 else None)]"
      and "md_runtimeScore (er_metadata res) = (if declaresRuntime ts then Some 0 else None)"
      by auto
  qed
  show ?thesis by (intro conjI A B C)
qed

text \<open>
  C10 as stated fails: for an XS task that declares the browser entry
  \<open>index.html\<close> and whose tree call returns no tree, the runtime score passed to the
  final evaluator is 0, not null.
\<close>

theorem runTask_runtime_score_counterexample:
  "taskSize (browserTask XS) = XS
   \<and> fst (runTask (runEnvOf (callOf (Resolved emptyOutput)) (callOf (Resolved goodOutput)))
            (browserTask XS))
       = [FinalEval (Some 0)]"
  by (simp add: runTask_def runTask_examples modelFailure_def declaresRuntime_def truthyStr_def
        Let_def)


lemmas gate_eval =
  parseModelOutput_def validateTreeSpec_def validateArtifactsSpec_def treeFiles_def
  trim_def isSpace_def filesOfJs_def

text \<open>
  The amended C10 at two runs in which both phases deliver a valid bundle: an XS task
  (runtime skipped, null passed on) and an M task (sandbox run, gate passed).
\<close>

theorem runTask_runtime_gating_witness:
  "taskSize (browserTask XS) = XS
   \<and> producedTree (runEnvOf (callOf (Resolved goodOutput)) (callOf (Resolved goodOutput)))
        (browserTask XS) \<noteq> None
   \<and> producedArtifacts (runEnvOf (callOf (Resolved goodOutput)) (callOf (Resolved goodOutput)))
        (browserTask XS) \<noteq> None
   \<and> (\<exists>res. snd (runTask (runEnvOf (callOf (Resolved goodOutput)) (callOf (Resolved goodOutput)))
                  (browserTask XS)) = Resolved res
            \<and> md_runtimeScore (er_metadata res) = None)
   \<and> fst (runTask (runEnvOf (callOf (Resolved goodOutput)) (callOf (Resolved goodOutput)))
            (browserTask XS)) = [FinalEval None]
   \<and> SandboxRun \<in> set (fst (runTask (runEnvOf (callOf (Resolved goodOutput))
                                         (callOf (Resolved goodOutput))) (browserTask M)))
   \<and> gatePassed (runEnvOf (callOf (Resolved goodOutput)) (callOf (Resolved goodOutput)))
        (browserTask M)"
proof -
  let ?E = "runEnvOf (callOf (Resolved goodOutput)) (callOf (Resolved goodOutput))"
  have size: "taskSize (browserTask XS) = XS" by (simp add: browserTask_def)
  have pt: "producedTree ?E (browserTask XS) \<noteq> None"
    and pa: "producedArtifacts ?E (browserTask XS) \<noteq> None"
    by (simp_all add: runTask_examples)
  obtain res where res: "snd (runTask ?E (browserTask XS)) = Resolved res"
    by (simp add: runTask_def gradeArtifacts_def finishTask_def runTask_examples gate_eval Let_def)
  have run: "SandboxRun \<in> set (fst (runTask ?E (browserTask M)))"
    by (simp add: runTask_def gradeArtifacts_def finishTask_def runTask_examples gate_eval Let_def
          runInSandbox_def runRuntime_def truthyStr_def endsWith_def sandboxResult_def
          evaluateRuntime_def manifestCheck_def bindE_def)
  from runTask_runtime_gating [of ?E "browserTask XS" res] size pt pa res
  have light: "fst (runTask ?E (browserTask XS)) = [FinalEval None]"
    "md_runtimeScore (er_metadata res) = None"
    by simp_all
  from runTask_runtime_gating [of ?E "browserTask M" res] run
  have gate: "gatePassed ?E (browserTask M)" by simp
  from size pt pa res light run gate show ?thesis by blast
qed

end
